theory Spec2Isabelle
  imports Main "HOL-Library.Char_ord" "HOL-Library.List_Lexorder" "HOL-Library.Multiset"
    "HOL-Library.Word"
begin

unbundle bit_operations_syntax

section \<open>Byte strings of Python 2\<close>

text \<open>
  A Python 2 \<open>str\<close> is a sequence of bytes; it is modelled as \<^typ>\<open>string\<close>, a list of
  8-bit characters. The helpers below are the \<open>str\<close> methods the scripts call.
\<close>

definition startswith :: "'a list \<Rightarrow> 'a list \<Rightarrow> bool" where
  "startswith s p = (take (length p) s = p)"

definition endswith :: "'a list \<Rightarrow> 'a list \<Rightarrow> bool" where
  "endswith s p = (length p \<le> length s \<and> drop (length s - length p) s = p)"

text \<open>
  \<open>s.replace(old, new)\<close>: every non-overlapping occurrence of \<open>old\<close>, found from the
  left, is replaced. The counter is the number of characters of the current occurrence
  that are still to be skipped.
\<close>

fun replace_aux :: "nat \<Rightarrow> 'a list \<Rightarrow> 'a list \<Rightarrow> 'a list \<Rightarrow> 'a list" where
  "replace_aux k [] old new = (if old = [] then new else [])"
| "replace_aux (Suc k) (x # xs) old new = replace_aux k xs old new"
| "replace_aux 0 (x # xs) old new =
     (if old = [] then new @ x # replace_aux 0 xs old new
      else if startswith (x # xs) old then new @ replace_aux (length old - 1) xs old new
      else x # replace_aux 0 xs old new)"

definition replace :: "'a list \<Rightarrow> 'a list \<Rightarrow> 'a list \<Rightarrow> 'a list" where
  "replace s old new = replace_aux 0 s old new"

text \<open>\<open>c.upper()\<close> on one byte, in the C locale: only \<open>a\<close> .. \<open>z\<close> change.\<close>

definition upper_char :: "char \<Rightarrow> char" where
  "upper_char c =
     (let n = (of_char c :: nat) in if 97 \<le> n \<and> n \<le> 122 then char_of (n - 32) else c)"

definition upper :: "string \<Rightarrow> string" where
  "upper s = map upper_char s"

text \<open>The class \<open>\d\<close> of a byte-string pattern: the ten ASCII digits.\<close>

definition is_digit :: "char \<Rightarrow> bool" where
  "is_digit c = (let n = (of_char c :: nat) in 48 \<le> n \<and> n \<le> 57)"

text \<open>\<open>s.rfind(c)\<close>: the index of the last occurrence of \<open>c\<close>, or \<open>-1\<close>.\<close>

fun rfind :: "'a list \<Rightarrow> 'a \<Rightarrow> int" where
  "rfind [] c = -1"
| "rfind (x # xs) c =
     (let r = rfind xs c in if 0 \<le> r then r + 1 else if x = c then 0 else -1)"

text \<open>
  \<open>os.path.splitext\<close> of \<open>posixpath\<close>: the extension starts at the last dot that
  follows the last slash, unless only dots stand between that slash and the dot.
\<close>

definition splitext :: "string \<Rightarrow> string \<times> string" where
  "splitext p =
     (let sepIndex = rfind p CHR ''/'';
          dotIndex = rfind p CHR ''.''
      in if sepIndex < dotIndex \<and>
            list_ex (\<lambda>ch. ch \<noteq> CHR ''.'')
              (take (nat (dotIndex - (sepIndex + 1))) (drop (nat (sepIndex + 1)) p))
         then (take (nat dotIndex) p, drop (nat dotIndex) p)
         else (p, []))"

section \<open>Errors\<close>

text \<open>
  The exceptions the scripts can raise. \<open>UnboundLocalError\<close> carries the name of the
  local variable read before assignment, \<open>LocalizeException\<close> its message.
\<close>

datatype error =
    UnboundLocalError string
  | IndexError
  | OSError string
  | IOError string
  | UnicodeDecodeError
  | TypeError
  | LocalizeException string

section \<open>rst\_index.py: the name demangler\<close>

text \<open>
  The loop of \<open>GetName\<close> over \<open>mangle\<close>, with the loop variables \<open>cap\<close> and \<open>out\<close>
  as arguments; the result is \<open>out\<close> when the loop ends.
\<close>

fun mangle_loop :: "bool \<Rightarrow> string \<Rightarrow> string \<Rightarrow> string" where
  "mangle_loop cap out [] = out"
| "mangle_loop cap out (c # cs) =
     (if c = CHR ''_'' then
        (if cap then mangle_loop False (out @ [c]) cs
         else mangle_loop True out cs)
      else if cap then mangle_loop False (out @ [upper_char c]) cs
      else mangle_loop cap (out @ [c]) cs)"

text \<open>
  \<open>re.sub(r'_\d_\d$', '', out)\<close>. Without the MULTILINE flag \<open>$\<close> matches at the end
  of the string and before a newline that ends the string, so at most one place matches.
\<close>

definition version_suffix :: "string \<Rightarrow> bool" where
  "version_suffix s =
     (case s of
        [u1, d1, u2, d2] \<Rightarrow> u1 = CHR ''_'' \<and> is_digit d1 \<and> u2 = CHR ''_'' \<and> is_digit d2
      | _ \<Rightarrow> False)"

definition strip_version :: "string \<Rightarrow> string" where
  "strip_version out =
     (let n = length out in
      if 4 \<le> n \<and> version_suffix (drop (n - 4) out) then take (n - 4) out
      else if 5 \<le> n \<and> last out = CHR 0x0A \<and> version_suffix (take 4 (drop (n - 5) out))
        then take (n - 5) out @ [CHR 0x0A]
      else out)"

text \<open>
  \<open>GetName\<close>. The result is the list of lines printed and either the exception raised
  or the value returned. In the last branch nothing has assigned \<open>mangle\<close>, and the loop
  that follows reads it.
\<close>

definition GetName :: "string \<Rightarrow> string list \<times> (error + string)" where
  "GetName fname =
     (let filename = fst (splitext fname) in
      if startswith filename ''struct_p_p_b__'' then
        ([], Inr (strip_version (mangle_loop True [] (drop 7 filename))))
      else if startswith filename ''struct_p_p_p__'' then
        ([], Inr (strip_version (mangle_loop True [] (drop 7 filename))))
      else if startswith filename ''struct_p_p__'' then
        ([], Inr (strip_version (mangle_loop True [] (drop 7 filename))))
      else if startswith filename ''union_p_p__'' then
        ([], Inr (strip_version (mangle_loop True [] (drop 6 filename))))
      else if startswith filename ''classpp_1_1_'' then
        ([], Inr (strip_version (mangle_loop True [] (drop 12 filename))))
      else if startswith filename ''classpp_1_1ext_1_1_'' then
        ([], Inr (strip_version (mangle_loop True ''Ext::'' (drop 19 filename))))
      else if startswith filename ''classpp_1_1internal_1_1_'' then
        ([], Inr (strip_version (mangle_loop True ''Internal::'' (drop 24 filename))))
      else if startswith filename ''structpp_1_1internal_1_1_'' then
        ([], Inr (strip_version (mangle_loop True ''Internal::'' (drop 25 filename))))
      else if endswith filename ''_8h'' then
        ([], Inr (replace (take (length filename - 3) filename) ''__'' ''_'' @ ''.h''))
      else
        ([''No match: '' @ filename], Inl (UnboundLocalError ''mangle'')))"


text \<open>The value of the loop variable \<open>cap\<close> when the loop over \<open>mangle\<close> ends.\<close>

fun cap_after :: "bool \<Rightarrow> string \<Rightarrow> bool" where
  "cap_after cap [] = cap"
| "cap_after cap (c # cs) =
     (if c = CHR ''_'' then cap_after (\<not> cap) cs else cap_after False cs)"

section \<open>rst\_index.py: the pattern matcher and the index pages\<close>

text \<open>
  A call that may print and may raise: the lines printed, and the exception or the value.
\<close>

type_synonym 'a result = "string list \<times> (error + 'a)"

text \<open>\<open>sep.join(items)\<close>.\<close>

fun join :: "'a list \<Rightarrow> 'a list list \<Rightarrow> 'a list" where
  "join sep [] = []"
| "join sep [x] = x"
| "join sep (x # y # ys) = x @ sep @ join sep (y # ys)"

text \<open>
  The wildcard test \<open>fnmatch.fnmatch(name, pat)\<close> belongs to the Python library, not to
  the script. The functions below take it as the argument \<open>fnmatch\<close>, so that what is
  proved of them holds for every matcher. \<open>fnmatch.filter(names, pat)\<close> keeps the names
  that match, in their order. The function \<open>wild\<close> is the library's matcher on patterns
  of literal characters, \<open>*\<close> and \<open>?\<close> (every pattern of the script is one); it serves
  to run the model on examples.
\<close>

type_synonym matcher = "string \<Rightarrow> string \<Rightarrow> bool"

definition fnmatch_filter :: "matcher \<Rightarrow> string list \<Rightarrow> string \<Rightarrow> string list" where
  "fnmatch_filter fnmatch names pat = filter (\<lambda>name. fnmatch name pat) names"

fun wild :: matcher where
  "wild [] [] = True"
| "wild (c # cs) [] = False"
| "wild [] (p # ps) = (p = CHR ''*'' \<and> wild [] ps)"
| "wild (c # cs) (p # ps) =
     (if p = CHR ''*'' then wild (c # cs) ps \<or> wild cs (p # ps)
      else (p = CHR ''?'' \<or> p = c) \<and> wild cs ps)"

definition C_INTERFACE_WILDCARDS :: "string list" where
  "C_INTERFACE_WILDCARDS = [''struct_p_p_p__*'', ''struct_p_p_b__*'']"

definition C_STRUCT_WILDCARDS :: "string list" where
  "C_STRUCT_WILDCARDS = [''struct_p_p__*'', ''union_p_p__*'']"

definition CPP_CLASSES_WILDCARDS :: "string list" where
  "CPP_CLASSES_WILDCARDS = [''classpp_1_1*.html'']"

definition CPP_CLASSES_EXCLUDES :: "string list" where
  "CPP_CLASSES_EXCLUDES = [''*-members*'']"

definition FILE_WILDCARDS :: "string list" where
  "FILE_WILDCARDS = [''*_8h.html'']"

text \<open>
  The list \<open>good_files\<close> of \<open>MakeReSTListFromFiles\<close> when the sort is done: the matches
  of each inclusion pattern are appended in turn, each exclusion pattern then filters the
  list, and the list is sorted (byte strings compare lexicographically by byte value).
  \<open>excludes\<close> is \<open>None\<close> when the argument is left out; \<open>None\<close> and the empty list are
  both false for the \<open>if\<close>.
\<close>

definition good_files ::
  "matcher \<Rightarrow> string list \<Rightarrow> string list \<Rightarrow> string list option \<Rightarrow> string list" where
  "good_files fnmatch dir_files matches excludes =
     (let good = foldl (\<lambda>good match. good @ fnmatch_filter fnmatch dir_files match) [] matches;
          good' = (case excludes of
                     None \<Rightarrow> good
                   | Some [] \<Rightarrow> good
                   | Some excl \<Rightarrow>
                       foldl (\<lambda>good exclude.
                                filter (\<lambda>filename. \<not> fnmatch filename exclude) good)
                             good excl)
      in sort good')"

text \<open>
  The entries handed to \<open>join\<close>: \<open>GetName\<close> is called on each file in turn, and the
  first exception ends the computation.
\<close>

fun rst_entries :: "string \<Rightarrow> string list \<Rightarrow> string list result" where
  "rst_entries prefix [] = ([], Inr [])"
| "rst_entries prefix (f # fs) =
     (case GetName f of
        (p1, Inl e) \<Rightarrow> (p1, Inl e)
      | (p1, Inr name) \<Rightarrow>
          (case rst_entries prefix fs of
             (p2, Inl e) \<Rightarrow> (p1 @ p2, Inl e)
           | (p2, Inr rest) \<Rightarrow>
               (p1 @ p2,
                Inr ((''  * `'' @ name @ '' <'' @ prefix @ ''/'' @ f @ ''>`__\<newline>'') # rest))))"

text \<open>
  \<open>MakeReSTListFromFiles\<close>. \<open>listdir\<close> is the directory tree: it gives the entries of a
  directory in the order \<open>os.listdir\<close> returns them, and \<open>None\<close> where \<open>os.listdir\<close>
  raises \<open>OSError\<close>.
\<close>

definition MakeReSTListFromFiles ::
  "matcher \<Rightarrow> (string \<rightharpoonup> string list) \<Rightarrow> string \<Rightarrow> string \<Rightarrow> string list
     \<Rightarrow> string list option \<Rightarrow> string result" where
  "MakeReSTListFromFiles fnmatch listdir prefix path matches excludes =
     (case listdir path of
        None \<Rightarrow> ([], Inl (OSError path))
      | Some dir_files \<Rightarrow>
          (case rst_entries prefix (good_files fnmatch dir_files matches excludes) of
             (printed, Inl e) \<Rightarrow> (printed, Inl e)
           | (printed, Inr entries) \<Rightarrow> (printed, Inr (join ''\<newline>'' entries))))"

text \<open>\<open>MakeTitleCase\<close>: \<open>s[0]\<close> raises \<open>IndexError\<close> on the empty string.\<close>

definition MakeTitleCase :: "string \<Rightarrow> error + string" where
  "MakeTitleCase s = (case s of [] \<Rightarrow> Inl IndexError | c # cs \<Rightarrow> Inr (upper [c] @ cs))"

definition MakeChannelAlt :: "string \<Rightarrow> string" where
  "MakeChannelAlt channel = (if channel = ''stable'' then [] else ''-'' @ channel)"

text \<open>
  The three templates, as functions of the names they refer to. \<open>version\<close> comes from
  the command line and is \<open>None\<close> when the option is left out; \<open>%s\<close> then writes \<open>None\<close>.
\<close>

definition str_of :: "string option \<Rightarrow> string" where
  "str_of v = (case v of None \<Rightarrow> ''None'' | Some s \<Rightarrow> s)"

definition ROOT_FILE_CONTENTS :: "string \<Rightarrow> string \<Rightarrow> string \<Rightarrow> string" where
  "ROOT_FILE_CONTENTS channel channel_title version = concat
     [''.. _pepper_'',
      channel,
      ''_index:\<newline>'',
      ''\<newline>'',
      '':orphan:\<newline>'',
      ''\<newline>'',
      ''.. DO NOT EDIT! This document is auto-generated by doxygen/rst_index.py.\<newline>'',
      ''\<newline>'',
      ''.. include:: /migration/deprecation.inc\<newline>'',
      ''\<newline>'',
      ''########################################\<newline>'',
      ''Pepper API Reference ('',
      channel_title,
      '')\<newline>'',
      ''########################################\<newline>'',
      ''\<newline>'',
      ''This page lists the API for Pepper '',
      version,
      ''. Apps that use this API can\<newline>'',
      ''run in Chrome '',
      version,
      '' or higher.\<newline>'',
      ''\<newline>'',
      '':ref:`Pepper C API Reference <pepper_'',
      channel,
      ''_c_index>`\<newline>'',
      ''===========================================================\<newline>'',
      ''\<newline>'',
      '':ref:`Pepper C++ API Reference <pepper_'',
      channel,
      ''_cpp_index>`\<newline>'',
      ''===============================================================\<newline>'',
      ''\<newline>'']"

definition C_FILE_CONTENTS :: "string \<Rightarrow> string \<Rightarrow> string \<Rightarrow> string \<Rightarrow> string \<Rightarrow> string \<Rightarrow> string \<Rightarrow> string" where
  "C_FILE_CONTENTS channel channel_alt channel_title version interfaces structures files = concat
     [''.. _pepper_'',
      channel,
      ''_c_index:\<newline>'',
      ''.. _c-api'',
      channel_alt,
      '':\<newline>'',
      ''\<newline>'',
      ''.. DO NOT EDIT! This document is auto-generated by doxygen/rst_index.py.\<newline>'',
      ''\<newline>'',
      ''.. include:: /migration/deprecation.inc\<newline>'',
      ''\<newline>'',
      ''##########################################\<newline>'',
      ''Pepper C API Reference ('',
      channel_title,
      '')\<newline>'',
      ''##########################################\<newline>'',
      ''\<newline>'',
      ''This page lists the C API for Pepper '',
      version,
      ''. Apps that use this API can\<newline>'',
      ''run in Chrome '',
      version,
      '' or higher.\<newline>'',
      ''\<newline>'',
      ''`Interfaces <pepper_'',
      channel,
      ''/c/group___interfaces.html>`__\<newline>'',
      ''=============================================================\<newline>'',
      interfaces,
      ''\<newline>'',
      ''\<newline>'',
      ''`Structures <pepper_'',
      channel,
      ''/c/group___structs.html>`__\<newline>'',
      ''==========================================================\<newline>'',
      structures,
      ''\<newline>'',
      ''\<newline>'',
      ''`Functions <pepper_'',
      channel,
      ''/c/group___functions.html>`__\<newline>'',
      ''===========================================================\<newline>'',
      ''\<newline>'',
      ''`Enums <pepper_'',
      channel,
      ''/c/group___enums.html>`__\<newline>'',
      ''===================================================\<newline>'',
      ''\<newline>'',
      ''`Typedefs <pepper_'',
      channel,
      ''/c/group___typedefs.html>`__\<newline>'',
      ''=========================================================\<newline>'',
      ''\<newline>'',
      ''`Macros <pepper_'',
      channel,
      ''/c/globals_defs.html>`__\<newline>'',
      ''===================================================\<newline>'',
      ''\<newline>'',
      ''Files\<newline>'',
      ''=====\<newline>'',
      files,
      ''\<newline>'']"

definition CPP_FILE_CONTENTS :: "string \<Rightarrow> string \<Rightarrow> string \<Rightarrow> string \<Rightarrow> string \<Rightarrow> string \<Rightarrow> string" where
  "CPP_FILE_CONTENTS channel channel_alt channel_title version classes files = concat
     [''.. _pepper_'',
      channel,
      ''_cpp_index:\<newline>'',
      ''.. _cpp-api'',
      channel_alt,
      '':\<newline>'',
      ''\<newline>'',
      ''.. DO NOT EDIT! This document is auto-generated by doxygen/rst_index.py.\<newline>'',
      ''\<newline>'',
      ''.. include:: /migration/deprecation.inc\<newline>'',
      ''\<newline>'',
      ''############################################\<newline>'',
      ''Pepper C++ API Reference ('',
      channel_title,
      '')\<newline>'',
      ''############################################\<newline>'',
      ''\<newline>'',
      ''This page lists the C++ API for Pepper '',
      version,
      ''. Apps that use this API can\<newline>'',
      ''run in Chrome '',
      version,
      '' or higher.\<newline>'',
      ''\<newline>'',
      ''`Classes <pepper_'',
      channel,
      ''/cpp/inherits.html>`__\<newline>'',
      ''==================================================\<newline>'',
      classes,
      ''\<newline>'',
      ''\<newline>'',
      ''Files\<newline>'',
      ''=====\<newline>'',
      files,
      ''\<newline>'']"

text \<open>
  The three generators. The state is the content of the files, by path; the result is
  the new state, the lines printed and the exception, if any. Each generator builds the
  whole document in a \<open>StringIO\<close> first and opens the output file last.
\<close>

type_synonym files = "string \<rightharpoonup> string"

definition GenerateRootIndex ::
  "files \<Rightarrow> string \<Rightarrow> string option \<Rightarrow> string \<Rightarrow> files \<times> unit result" where
  "GenerateRootIndex fs channel version out_filename =
     (case MakeTitleCase channel of
        Inl e \<Rightarrow> (fs, [], Inl e)
      | Inr channel_title \<Rightarrow>
          (let channel_alt = MakeChannelAlt channel;
               output = ROOT_FILE_CONTENTS channel channel_title (str_of version)
           in (fs(out_filename \<mapsto> output), [], Inr ())))"

definition GenerateCIndex ::
  "matcher \<Rightarrow> (string \<rightharpoonup> string list) \<Rightarrow> files \<Rightarrow> string \<Rightarrow> string \<Rightarrow> string option
     \<Rightarrow> string \<Rightarrow> files \<times> unit result" where
  "GenerateCIndex fnmatch listdir fs root_dir channel version out_filename =
     (let prefix = ''pepper_'' @ channel @ ''/c'' in
      case MakeReSTListFromFiles fnmatch listdir prefix root_dir C_INTERFACE_WILDCARDS None of
        (p1, Inl e) \<Rightarrow> (fs, p1, Inl e)
      | (p1, Inr interfaces) \<Rightarrow>
      (case MakeReSTListFromFiles fnmatch listdir prefix root_dir C_STRUCT_WILDCARDS None of
        (p2, Inl e) \<Rightarrow> (fs, p1 @ p2, Inl e)
      | (p2, Inr structures) \<Rightarrow>
      (case MakeReSTListFromFiles fnmatch listdir prefix root_dir FILE_WILDCARDS None of
        (p3, Inl e) \<Rightarrow> (fs, p1 @ p2 @ p3, Inl e)
      | (p3, Inr files) \<Rightarrow>
      (case MakeTitleCase channel of
        Inl e \<Rightarrow> (fs, p1 @ p2 @ p3, Inl e)
      | Inr channel_title \<Rightarrow>
          (let channel_alt = MakeChannelAlt channel;
               output = C_FILE_CONTENTS channel channel_alt channel_title (str_of version)
                          interfaces structures files
           in (fs(out_filename \<mapsto> output), p1 @ p2 @ p3, Inr ()))))))"

definition GenerateCppIndex ::
  "matcher \<Rightarrow> (string \<rightharpoonup> string list) \<Rightarrow> files \<Rightarrow> string \<Rightarrow> string \<Rightarrow> string option
     \<Rightarrow> string \<Rightarrow> files \<times> unit result" where
  "GenerateCppIndex fnmatch listdir fs root_dir channel version out_filename =
     (let prefix = ''pepper_'' @ channel @ ''/cpp'' in
      case MakeReSTListFromFiles fnmatch listdir prefix root_dir CPP_CLASSES_WILDCARDS
             (Some CPP_CLASSES_EXCLUDES) of
        (p1, Inl e) \<Rightarrow> (fs, p1, Inl e)
      | (p1, Inr classes) \<Rightarrow>
      (case MakeReSTListFromFiles fnmatch listdir prefix root_dir FILE_WILDCARDS None of
        (p2, Inl e) \<Rightarrow> (fs, p1 @ p2, Inl e)
      | (p2, Inr files) \<Rightarrow>
      (case MakeTitleCase channel of
        Inl e \<Rightarrow> (fs, p1 @ p2, Inl e)
      | Inr channel_title \<Rightarrow>
          (let channel_alt = MakeChannelAlt channel;
               output = CPP_FILE_CONTENTS channel channel_alt channel_title (str_of version)
                          classes files
           in (fs(out_filename \<mapsto> output), p1 @ p2, Inr ())))))"

section \<open>remoting\_ios\_localize.py\<close>

text \<open>
  A Python 2 \<open>unicode\<close> string is modelled as the list of its code points. The tool
  writes its output through \<open>codecs.open(path, 'w', 'utf-16')\<close>; the content of such a
  file is modelled as the text written to it, before the encoding.
\<close>

type_synonym unicode = "nat list"

text \<open>A literal \<open>u'...'\<close> of ASCII characters.\<close>

definition ustr :: "string \<Rightarrow> unicode" where
  "ustr s = map of_char s"

text \<open>
  The implicit conversion of a byte string that is formatted into a \<open>unicode\<close> format
  string: the default codec is ASCII, and a byte above 127 raises \<open>UnicodeDecodeError\<close>.
\<close>

definition ascii_decode :: "string \<Rightarrow> error + unicode" where
  "ascii_decode s =
     (if list_all (\<lambda>c. (of_char c :: nat) < 128) s then Inr (map of_char s)
      else Inl UnicodeDecodeError)"

text \<open>
  \<open>codecs.decode(data, 'utf-8')\<close>, the strict decoder of CPython 2.7, on the byte
  values. A lead byte \<open>C2\<close> .. \<open>DF\<close> takes one continuation byte, \<open>E0\<close> .. \<open>EF\<close> two and
  \<open>F0\<close> .. \<open>F4\<close> three; overlong forms and values above \<open>10FFFF\<close> are refused, encoded
  surrogates are accepted (as this version of Python does). A sequence of four bytes is
  one code point here, whatever the width of the build's \<open>Py_UNICODE\<close>.
\<close>

definition continuation :: "nat \<Rightarrow> bool" where
  "continuation b = (128 \<le> b \<and> b < 192)"

fun utf8_code_points :: "nat list \<Rightarrow> error + unicode" where
  "utf8_code_points [] = Inr []"
| "utf8_code_points (b0 # bs) =
     (if b0 < 128 then
        (case utf8_code_points bs of Inl e \<Rightarrow> Inl e | Inr u \<Rightarrow> Inr (b0 # u))
      else if 194 \<le> b0 \<and> b0 \<le> 223 then
        (case bs of
           b1 # r \<Rightarrow>
             if continuation b1 then
               (case utf8_code_points r of
                  Inl e \<Rightarrow> Inl e
                | Inr u \<Rightarrow> Inr (((b0 mod 32) * 64 + b1 mod 64) # u))
             else Inl UnicodeDecodeError
         | _ \<Rightarrow> Inl UnicodeDecodeError)
      else if 224 \<le> b0 \<and> b0 \<le> 239 then
        (case bs of
           b1 # b2 # r \<Rightarrow>
             if continuation b1 \<and> continuation b2 \<and> \<not> (b0 = 224 \<and> b1 < 160) then
               (case utf8_code_points r of
                  Inl e \<Rightarrow> Inl e
                | Inr u \<Rightarrow> Inr (((b0 mod 16) * 4096 + (b1 mod 64) * 64 + b2 mod 64) # u))
             else Inl UnicodeDecodeError
         | _ \<Rightarrow> Inl UnicodeDecodeError)
      else if 240 \<le> b0 \<and> b0 \<le> 244 then
        (case bs of
           b1 # b2 # b3 # r \<Rightarrow>
             if continuation b1 \<and> continuation b2 \<and> continuation b3
                \<and> \<not> (b0 = 240 \<and> b1 < 144) \<and> \<not> (b0 = 244 \<and> 143 < b1) then
               (case utf8_code_points r of
                  Inl e \<Rightarrow> Inl e
                | Inr u \<Rightarrow>
                    Inr (((b0 mod 8) * 262144 + (b1 mod 64) * 4096 + (b2 mod 64) * 64
                          + b3 mod 64) # u))
             else Inl UnicodeDecodeError
         | _ \<Rightarrow> Inl UnicodeDecodeError)
      else Inl UnicodeDecodeError)"

definition utf8_decode :: "string \<Rightarrow> error + unicode" where
  "utf8_decode data = utf8_code_points (map of_char data)"

text \<open>\<open>'%d' % n\<close>.\<close>

fun str_nat :: "nat \<Rightarrow> string" where
  "str_nat n =
     (if n < 10 then [char_of (48 + n)] else str_nat (n div 10) @ [char_of (48 + n mod 10)])"

definition str_int :: "int \<Rightarrow> string" where
  "str_int i = (if i < 0 then ''-'' @ str_nat (nat (- i)) else str_nat (nat i))"

text \<open>\<open>os.path.join(a, b)\<close> of \<open>posixpath\<close>.\<close>

definition path_join :: "string \<Rightarrow> string \<Rightarrow> string" where
  "path_join a b =
     (if startswith b ''/'' then b
      else if a = [] \<or> endswith a ''/'' then a @ b
      else a @ ''/'' @ b)"

definition LOCALIZABLE_STRINGS :: string where
  "LOCALIZABLE_STRINGS = ''Localizable.strings''"

definition INFOPLIST_STRINGS :: string where
  "INFOPLIST_STRINGS = ''InfoPlist.strings''"

definition decode_and_escape :: "string \<Rightarrow> error + unicode" where
  "decode_and_escape data =
     (case utf8_decode data of
        Inl e \<Rightarrow> Inl e
      | Inr u_string \<Rightarrow>
          Inr (replace (replace u_string (ustr [CHR 0x5C]) (ustr [CHR 0x5C, CHR 0x5C]))
                 (ustr [CHR 0x22]) (ustr [CHR 0x5C, CHR 0x22])))"

text \<open>
  The truth value of the result of \<open>dict.get\<close>: \<open>None\<close>, the integer \<open>0\<close> and the empty
  string are false.
\<close>

definition falsy_int :: "int option \<Rightarrow> bool" where
  "falsy_int v = (case v of None \<Rightarrow> True | Some i \<Rightarrow> i = 0)"

definition falsy_str :: "string option \<Rightarrow> bool" where
  "falsy_str v = (case v of None \<Rightarrow> True | Some s \<Rightarrow> s = [])"

text \<open>
  \<open>LocalizedStringJinja2Adapter.__getattr__\<close>, with the fields \<open>id_map\<close> and
  \<open>pack.resources\<close> of the object as arguments.
\<close>

definition adapter_getattr ::
  "(string \<rightharpoonup> int) \<Rightarrow> (int \<rightharpoonup> string) \<Rightarrow> string \<Rightarrow> error + unicode" where
  "adapter_getattr id_map resources name =
     (if falsy_int (id_map name) then
        Inl (LocalizeException (''Could not find id '' @ name @ '' in resource header''))
      else
        (let id_value = the (id_map name) in
         if falsy_str (resources id_value) then
           Inl (LocalizeException
                  (''Could not find string with id '' @ name @ '' ('' @ str_int id_value
                   @ '') in data pack''))
         else decode_and_escape (the (resources id_value))))"

definition format_quoted_list :: "string list \<Rightarrow> string" where
  "format_quoted_list items = join '' '' (map (\<lambda>x. [CHR 0x22] @ x @ [CHR 0x22]) items)"

definition format_lproj_dir :: "string \<Rightarrow> string \<Rightarrow> string" where
  "format_lproj_dir to_dir locale = path_join to_dir (replace locale ''-'' ''_'' @ ''.lproj'')"

definition get_inputs :: "string \<Rightarrow> string list \<Rightarrow> string" where
  "get_inputs from_dir locales =
     format_quoted_list (map (\<lambda>locale. path_join from_dir (locale @ ''.pak'')) locales)"

definition get_outputs :: "string \<Rightarrow> string list \<Rightarrow> string" where
  "get_outputs to_dir locales =
     format_quoted_list
       (concat (map (\<lambda>locale.
                       [path_join (format_lproj_dir to_dir locale) LOCALIZABLE_STRINGS,
                        path_join (format_lproj_dir to_dir locale) INFOPLIST_STRINGS])
                    locales))"

text \<open>
  What the tool reads. The header, the list of IDs, the template and the data packs are
  taken as they come out of \<open>read_resources_header\<close>, \<open>read_id_list\<close>,
  \<open>read_jinja2_template\<close> and \<open>data_pack.ReadDataPack\<close>, by path, each with the exception
  it may raise. A template is the function \<open>render\<close> of the \<open>ids\<close> object, which it can
  only ask for attributes.
\<close>

type_synonym template = "(string \<Rightarrow> error + unicode) \<Rightarrow> error + unicode"

record inputs =
  read_resources_header :: "string \<Rightarrow> error + (string \<rightharpoonup> int)"
  read_id_list :: "string \<Rightarrow> error + string list"
  read_jinja2_template :: "string \<Rightarrow> error + template"
  ReadDataPack :: "string \<Rightarrow> error + (int \<rightharpoonup> string)"

type_synonym text_files = "string \<rightharpoonup> unicode"

text \<open>
  One round of the loop over \<open>localizable_ids\<close>: the two lookups and the text handed to
  \<open>f.write\<close>.
\<close>

definition localizable_entry ::
  "(string \<rightharpoonup> int) \<Rightarrow> (int \<rightharpoonup> string) \<Rightarrow> string \<Rightarrow> string \<Rightarrow> string
     \<Rightarrow> error + unicode" where
  "localizable_entry id_map resources resources_header_path localizable_strings_path id_str =
     (if falsy_int (id_map id_str) then
        Inl (LocalizeException
               (''Could not find '' @ [CHR 0x22] @ id_str @ [CHR 0x22] @ '' in ''
                @ resources_header_path))
      else
        (let id_value = the (id_map id_str) in
         if falsy_str (resources id_value) then
           Inl (LocalizeException
                  (''Could not find localized string in '' @ localizable_strings_path
                   @ '' for '' @ id_str @ '' ('' @ str_int id_value @ '')''))
         else
           (case decode_and_escape (the (resources id_value)) of
              Inl e \<Rightarrow> Inl e
            | Inr escaped \<Rightarrow>
                (case ascii_decode id_str of
                   Inl e \<Rightarrow> Inl e
                 | Inr u_id \<Rightarrow>
                     Inr (ustr [CHR 0x22] @ u_id @ ustr ([CHR 0x22] @ '' = '' @ [CHR 0x22])
                          @ escaped @ ustr ([CHR 0x22] @ '';\<newline>''))))))"

text \<open>
  The loop over \<open>localizable_ids\<close> inside the \<open>with\<close> block: \<open>written\<close> is what has
  been written to the open file so far. The result is the content of the file when the
  block is left, and the exception that left it, if any.
\<close>

fun write_localizable ::
  "(string \<rightharpoonup> int) \<Rightarrow> (int \<rightharpoonup> string) \<Rightarrow> string \<Rightarrow> string \<Rightarrow> unicode \<Rightarrow> string list
     \<Rightarrow> unicode \<times> (error + unit)" where
  "write_localizable id_map resources hdr path written [] = (written, Inr ())"
| "write_localizable id_map resources hdr path written (id_str # ids) =
     (case localizable_entry id_map resources hdr path id_str of
        Inl e \<Rightarrow> (written, Inl e)
      | Inr line \<Rightarrow> write_localizable id_map resources hdr path (written @ line) ids)"

text \<open>
  The body of the loop over \<open>locales\<close>. The state is the files and the text written to
  \<open>sys.stderr\<close>. Opening a file for writing empties it at once; the directories
  (\<open>os.makedirs\<close>) are not part of the state.
\<close>

definition generate_locale ::
  "inputs \<Rightarrow> (string \<rightharpoonup> int) \<Rightarrow> string list \<Rightarrow> template \<Rightarrow> string \<Rightarrow> string \<Rightarrow> string
     \<Rightarrow> text_files \<times> string list \<Rightarrow> string \<Rightarrow> (text_files \<times> string list) \<times> (error + unit)" where
  "generate_locale env id_map localizable_ids infoplist_template from_dir to_dir
       resources_header_path st locale =
     (case ReadDataPack env (path_join from_dir (locale @ ''.pak'')) of
        Inl e \<Rightarrow> (st, Inl e)
      | Inr resources \<Rightarrow>
          (let lproj_dir = format_lproj_dir to_dir locale;
               localizable_strings_path = path_join lproj_dir LOCALIZABLE_STRINGS
           in case write_localizable id_map resources resources_header_path
                     localizable_strings_path [] localizable_ids of
                (written, Inl e) \<Rightarrow>
                  (((fst st)(localizable_strings_path \<mapsto> written),
                    snd st @ [''Error while creating '' @ localizable_strings_path @ ''\<newline>'']),
                   Inl e)
              | (written, Inr u) \<Rightarrow>
                  (let fs1 = (fst st)(localizable_strings_path \<mapsto> written);
                       infoplist_strings_path = path_join lproj_dir INFOPLIST_STRINGS
                   in case infoplist_template (adapter_getattr id_map resources) of
                        Inl e \<Rightarrow>
                          ((fs1(infoplist_strings_path \<mapsto> []),
                            snd st @ [''Error while creating '' @ infoplist_strings_path
                                      @ ''\<newline>'']),
                           Inl e)
                      | Inr infoplist \<Rightarrow>
                          ((fs1(infoplist_strings_path \<mapsto> infoplist), snd st), Inr ()))))"

fun generate_locales ::
  "inputs \<Rightarrow> (string \<rightharpoonup> int) \<Rightarrow> string list \<Rightarrow> template \<Rightarrow> string \<Rightarrow> string \<Rightarrow> string
     \<Rightarrow> text_files \<times> string list \<Rightarrow> string list \<Rightarrow> (text_files \<times> string list) \<times> (error + unit)" where
  "generate_locales env id_map ids tmpl from_dir to_dir hdr st [] = (st, Inr ())"
| "generate_locales env id_map ids tmpl from_dir to_dir hdr st (locale # locales) =
     (case generate_locale env id_map ids tmpl from_dir to_dir hdr st locale of
        (st', Inl e) \<Rightarrow> (st', Inl e)
      | (st', Inr u) \<Rightarrow> generate_locales env id_map ids tmpl from_dir to_dir hdr st' locales)"

text \<open>
  \<open>generate\<close>: the three reads, then the loop over the locales. When reading the header
  fails, \<open>read_resources_header\<close> writes a line to \<open>sys.stderr\<close> before it raises again.
\<close>

definition generate ::
  "inputs \<Rightarrow> text_files \<times> string list \<Rightarrow> string \<Rightarrow> string \<Rightarrow> string \<Rightarrow> string \<Rightarrow> string
     \<Rightarrow> string list \<Rightarrow> (text_files \<times> string list) \<times> (error + unit)" where
  "generate env st from_dir to_dir localizable_list_path infoplist_template_path
       resources_header_path locales =
     (case read_resources_header env resources_header_path of
        Inl e \<Rightarrow>
          ((fst st,
            snd st @ [''Error while reading header file '' @ resources_header_path
                      @ ''\<newline>'']),
           Inl e)
      | Inr id_map \<Rightarrow>
     (case read_id_list env localizable_list_path of
        Inl e \<Rightarrow> (st, Inl e)
      | Inr localizable_ids \<Rightarrow>
     (case read_jinja2_template env infoplist_template_path of
        Inl e \<Rightarrow> (st, Inl e)
      | Inr infoplist_template \<Rightarrow>
          generate_locales env id_map localizable_ids infoplist_template from_dir to_dir
            resources_header_path st locales)))"

text \<open>
  \<open>DoMain\<close>, from the result of \<open>parser.parse_args\<close> on: the options and the locales.
  \<open>parser.error\<close> writes its message and leaves with status 2. The outcome is the string
  returned, the status of \<open>sys.exit\<close>, or the exception that nothing catches.
\<close>

record options =
  print_input :: bool
  print_output :: bool
  from_dir :: "string option"
  to_dir :: "string option"
  localizable_list :: "string option"
  infoplist_template :: "string option"
  resources_header :: "string option"

datatype outcome = Returns string | SysExit int | Raises error

definition given :: "string option \<Rightarrow> bool" where
  "given v = (\<not> falsy_str v)"

definition DoMain ::
  "inputs \<Rightarrow> text_files \<times> string list \<Rightarrow> options \<Rightarrow> string list
     \<Rightarrow> (text_files \<times> string list) \<times> outcome" where
  "DoMain env st opts locales =
     (if locales = [] then
        ((fst st, snd st @ [''At least one locale is required.'']), SysExit 2)
      else if print_input opts \<and> print_output opts then
        ((fst st, snd st @ [''Only one of --print-inputs or --print-outputs is allowed'']),
         SysExit 2)
      else if print_input opts then
        (if \<not> given (from_dir opts) then
           ((fst st, snd st @ [''--from-dir is required.'']), SysExit 2)
         else (st, Returns (get_inputs (the (from_dir opts)) locales)))
      else if print_output opts then
        (if \<not> given (to_dir opts) then
           ((fst st, snd st @ [''--to-dir is required.'']), SysExit 2)
         else (st, Returns (get_outputs (the (to_dir opts)) locales)))
      else if \<not> (given (from_dir opts) \<and> given (to_dir opts) \<and> given (localizable_list opts)
                 \<and> given (infoplist_template opts) \<and> given (resources_header opts)) then
        ((fst st,
          snd st @ [''--from-dir, --to-dir, --localizable-list, ''
                    @ ''--infoplist-template and --resources-header are required.'']),
         SysExit 2)
      else
        (case generate env st (the (from_dir opts)) (the (to_dir opts))
                (the (localizable_list opts)) (the (infoplist_template opts))
                (the (resources_header opts)) locales of
           (st', Inl (LocalizeException msg)) \<Rightarrow>
             ((fst st', snd st' @ [''Error: '' @ msg @ ''\<newline>'']), SysExit 1)
         | (st', Inl e) \<Rightarrow> (st', Raises e)
         | (st', Inr u) \<Rightarrow> (st', Returns [])))"

text \<open>
  A small set of inputs for running the tool on examples: a header with one ID, a data
  pack with its string for every locale, a template that asks for that ID, and two lists
  of IDs, of which the second also asks for an ID that the header does not have.
\<close>

definition sample_inputs :: inputs where
  "sample_inputs =
     \<lparr>read_resources_header = (\<lambda>path. Inr [''IDS_X'' \<mapsto> 1]),
      read_id_list =
        (\<lambda>path. if path = ''ids.txt'' then Inr [''IDS_X''] else Inr [''IDS_X'', ''IDS_GONE'']),
      read_jinja2_template = (\<lambda>path. Inr (\<lambda>ids. ids ''IDS_X'')),
      ReadDataPack = (\<lambda>path. Inr [1 \<mapsto> ''hello''])\<rparr>"

definition sample_options :: options where
  "sample_options =
     \<lparr>print_input = False, print_output = False, from_dir = Some ''from'',
      to_dir = Some ''to'', localizable_list = Some ''ids2.txt'',
      infoplist_template = Some ''t.jinja2'', resources_header = Some ''h.h''\<rparr>"

section \<open>generate\_integrity\_header.py\<close>

text \<open>
  \<open>hashlib.sha256\<close>: SHA-256 as FIPS 180-4 defines it, on 32-bit words. The message is
  padded with the byte \<open>80\<close>, zero bytes and its length in bits as eight bytes, cut into
  blocks of sixteen big-endian words, and each block is fed to the compression function.
\<close>

type_synonym w32 = "32 word"

definition Ch :: "w32 \<Rightarrow> w32 \<Rightarrow> w32 \<Rightarrow> w32" where
  "Ch x y z = (x AND y) XOR (NOT x AND z)"

definition Maj :: "w32 \<Rightarrow> w32 \<Rightarrow> w32 \<Rightarrow> w32" where
  "Maj x y z = (x AND y) XOR (x AND z) XOR (y AND z)"

definition Sigma0 :: "w32 \<Rightarrow> w32" where
  "Sigma0 x = word_rotr 2 x XOR word_rotr 13 x XOR word_rotr 22 x"

definition Sigma1 :: "w32 \<Rightarrow> w32" where
  "Sigma1 x = word_rotr 6 x XOR word_rotr 11 x XOR word_rotr 25 x"

definition sigma0 :: "w32 \<Rightarrow> w32" where
  "sigma0 x = word_rotr 7 x XOR word_rotr 18 x XOR drop_bit 3 x"

definition sigma1 :: "w32 \<Rightarrow> w32" where
  "sigma1 x = word_rotr 17 x XOR word_rotr 19 x XOR drop_bit 10 x"

definition sha256_K :: "w32 list" where
  "sha256_K =
     [0x428A2F98, 0x71374491, 0xB5C0FBCF, 0xE9B5DBA5, 0x3956C25B, 0x59F111F1,
      0x923F82A4, 0xAB1C5ED5, 0xD807AA98, 0x12835B01, 0x243185BE, 0x550C7DC3,
      0x72BE5D74, 0x80DEB1FE, 0x9BDC06A7, 0xC19BF174, 0xE49B69C1, 0xEFBE4786,
      0x0FC19DC6, 0x240CA1CC, 0x2DE92C6F, 0x4A7484AA, 0x5CB0A9DC, 0x76F988DA,
      0x983E5152, 0xA831C66D, 0xB00327C8, 0xBF597FC7, 0xC6E00BF3, 0xD5A79147,
      0x06CA6351, 0x14292967, 0x27B70A85, 0x2E1B2138, 0x4D2C6DFC, 0x53380D13,
      0x650A7354, 0x766A0ABB, 0x81C2C92E, 0x92722C85, 0xA2BFE8A1, 0xA81A664B,
      0xC24B8B70, 0xC76C51A3, 0xD192E819, 0xD6990624, 0xF40E3585, 0x106AA070,
      0x19A4C116, 0x1E376C08, 0x2748774C, 0x34B0BCB5, 0x391C0CB3, 0x4ED8AA4A,
      0x5B9CCA4F, 0x682E6FF3, 0x748F82EE, 0x78A5636F, 0x84C87814, 0x8CC70208,
      0x90BEFFFA, 0xA4506CEB, 0xBEF9A3F7, 0xC67178F2]"

definition sha256_H0 :: "w32 list" where
  "sha256_H0 =
     [0x6A09E667, 0xBB67AE85, 0x3C6EF372, 0xA54FF53A,
      0x510E527F, 0x9B05688C, 0x1F83D9AB, 0x5BE0CD19]"

text \<open>The padded message, as byte values.\<close>

definition sha256_pad :: "nat list \<Rightarrow> nat list" where
  "sha256_pad msg =
     (let l = length msg; bits = (word_of_nat (8 * l) :: 64 word)
      in msg @ [128] @ replicate ((119 - l mod 64) mod 64) 0
         @ map (\<lambda>i. unat (drop_bit (8 * (7 - i)) bits AND 255)) [0..<8])"

text \<open>Big-endian words from bytes, four at a time, and blocks of sixteen words.\<close>

fun be_words :: "nat list \<Rightarrow> w32 list" where
  "be_words (a # b # c # d # rest) =
     (((word_of_nat a * 256 + word_of_nat b) * 256 + word_of_nat c) * 256 + word_of_nat d)
     # be_words rest"
| "be_words rest = []"

fun blocks :: "w32 list \<Rightarrow> w32 list list" where
  "blocks [] = []"
| "blocks (w # ws) = take 16 (w # ws) # blocks (drop 16 (w # ws))"

text \<open>
  The message schedule: \<open>n\<close> more words are appended to the list. It starts from the
  sixteen words of a block, so the four words read are in range.
\<close>

fun schedule :: "nat \<Rightarrow> w32 list \<Rightarrow> w32 list" where
  "schedule 0 w = w"
| "schedule (Suc n) w =
     (let t = length w
      in schedule n
           (w @ [sigma1 (w ! (t - 2)) + w ! (t - 7) + sigma0 (w ! (t - 15)) + w ! (t - 16)]))"

text \<open>One round on the working variables \<open>a\<close> .. \<open>h\<close>, with the constant and the word.\<close>

fun sha256_round :: "w32 list \<Rightarrow> w32 \<times> w32 \<Rightarrow> w32 list" where
  "sha256_round [a, b, c, d, e, f, g, h] (k, w) =
     (let T1 = h + Sigma1 e + Ch e f g + k + w;
          T2 = Sigma0 a + Maj a b c
      in [T1 + T2, a, b, c, d + T1, e, f, g])"
| "sha256_round vars kw = vars"

definition compress :: "w32 list \<Rightarrow> w32 list \<Rightarrow> w32 list" where
  "compress H block =
     map2 (+) H (foldl sha256_round H (zip sha256_K (schedule 48 block)))"

definition word_bytes :: "w32 \<Rightarrow> nat list" where
  "word_bytes w =
     [unat (drop_bit 24 w), unat (drop_bit 16 w AND 255), unat (drop_bit 8 w AND 255),
      unat (w AND 255)]"

definition sha256 :: "string \<Rightarrow> string" where
  "sha256 data =
     map char_of
       (concat (map word_bytes
          (foldl compress sha256_H0 (blocks (be_words (sha256_pad (map of_char data)))))))"

text \<open>\<open>base64.b64encode\<close>: three bytes give four characters, with \<open>=\<close> as padding.\<close>

definition b64_alphabet :: string where
  "b64_alphabet = ''ABCDEFGHIJKLMNOPQRSTUVWXYZabcdefghijklmnopqrstuvwxyz0123456789+/''"

fun b64_groups :: "nat list \<Rightarrow> string" where
  "b64_groups (a # b # c # rest) =
     [b64_alphabet ! (a div 4), b64_alphabet ! ((a mod 4) * 16 + b div 16),
      b64_alphabet ! ((b mod 16) * 4 + c div 64), b64_alphabet ! (c mod 64)]
     @ b64_groups rest"
| "b64_groups [a, b] =
     [b64_alphabet ! (a div 4), b64_alphabet ! ((a mod 4) * 16 + b div 16),
      b64_alphabet ! ((b mod 16) * 4), CHR ''='']"
| "b64_groups [a] =
     [b64_alphabet ! (a div 4), b64_alphabet ! ((a mod 4) * 16), CHR ''='', CHR ''='']"
| "b64_groups [] = []"

definition b64encode :: "string \<Rightarrow> string" where
  "b64encode s = b64_groups (map of_char s)"

text \<open>
  \<open>ComputeIntegrity\<close>. The files are given by their content; a path without a file
  makes \<open>open\<close> raise \<open>IOError\<close>.
\<close>

definition ComputeIntegrity :: "files \<Rightarrow> string \<Rightarrow> error + string" where
  "ComputeIntegrity fs input_path =
     (case fs input_path of
        None \<Rightarrow> Inl (IOError input_path)
      | Some content \<Rightarrow> Inr (b64encode (sha256 content)))"

text \<open>
  \<open>re.sub('\W', '_', s)\<close> on a byte string: every byte that is not an ASCII letter, a
  digit or the underscore becomes an underscore.
\<close>

definition is_word_char :: "char \<Rightarrow> bool" where
  "is_word_char c =
     (let n = (of_char c :: nat)
      in (48 \<le> n \<and> n \<le> 57) \<or> (65 \<le> n \<and> n \<le> 90) \<or> (97 \<le> n \<and> n \<le> 122) \<or> n = 95)"

definition define_name :: "string \<Rightarrow> string" where
  "define_name input_filename =
     map (\<lambda>c. if is_word_char c then c else CHR ''_'') (upper input_filename) @ ''_INTEGRITY''"

text \<open>The text that \<open>WriteHeader\<close> writes to the output file.\<close>

definition header_text :: "(string \<times> string) list \<Rightarrow> string" where
  "header_text input_paths_and_integrity =
     ''// DO NOT MODIFY THIS FILE DIRECTLY!\<newline>''
     @ ''// IT IS GENERATED BY generate_integrity_header.py\<newline>''
     @ ''// FROM:\<newline>''
     @ concat (map (\<lambda>(input_filename, u). ''//     * '' @ input_filename @ ''\<newline>'')
                 input_paths_and_integrity)
     @ ''\<newline>''
     @ concat (map (\<lambda>(input_filename, integrity).
                      ''#define '' @ define_name input_filename @ '' '' @ [CHR 0x22] @ integrity
                      @ [CHR 0x22] @ ''\<newline>'' @ ''\<newline>'')
                 input_paths_and_integrity)"

definition WriteHeader :: "files \<Rightarrow> (string \<times> string) list \<Rightarrow> string \<Rightarrow> files" where
  "WriteHeader fs input_paths_and_integrity output_path =
     fs(output_path \<mapsto> header_text input_paths_and_integrity)"

text \<open>\<open>os.path.basename\<close> of \<open>posixpath\<close>: what follows the last slash.\<close>

definition basename :: "string \<Rightarrow> string" where
  "basename p = drop (nat (rfind p CHR ''/'' + 1)) p"

text \<open>
  The list comprehension of \<open>main\<close>: the integrity of each input in turn; the first
  file that cannot be opened ends it.
\<close>

fun paths_and_integrity :: "files \<Rightarrow> string list \<Rightarrow> error + (string \<times> string) list" where
  "paths_and_integrity fs [] = Inr []"
| "paths_and_integrity fs (path # paths) =
     (case ComputeIntegrity fs path of
        Inl e \<Rightarrow> Inl e
      | Inr integrity \<Rightarrow>
          (case paths_and_integrity fs paths of
             Inl e \<Rightarrow> Inl e
           | Inr rest \<Rightarrow> Inr ((basename path, integrity) # rest)))"

text \<open>
  \<open>main\<close>, from the parsed arguments on. \<open>--output_path\<close> is optional; without it
  \<open>open(None, 'w')\<close> raises \<open>TypeError\<close>.
\<close>

definition main :: "files \<Rightarrow> string list \<Rightarrow> string option \<Rightarrow> files \<times> (error + int)" where
  "main fs input_paths output_path =
     (case paths_and_integrity fs input_paths of
        Inl e \<Rightarrow> (fs, Inl e)
      | Inr input_paths_and_integrity \<Rightarrow>
          (case output_path of
             None \<Rightarrow> (fs, Inl TypeError)
           | Some out \<Rightarrow> (WriteHeader fs input_paths_and_integrity out, Inr 0)))"

section \<open>Properties of the name demangler\<close>

lemma mangle_loop_out: "mangle_loop cap out s = out @ mangle_loop cap [] s"
proof (induction s arbitrary: cap out)
  case Nil
  show ?case by simp
next
  case (Cons c cs)
  have a: "\<And>b x. mangle_loop b (out @ [x]) cs = out @ mangle_loop b [x] cs"
    using Cons.IH [of _ "out @ [x]" for x] Cons.IH [of _ "[x]" for x] by simp
  show ?case using Cons.IH [of True out] Cons.IH [of True "[]"] by (simp add: a)
qed

lemma mangle_loop_append:
  "mangle_loop cap out (xs @ ys) = mangle_loop (cap_after cap xs) (mangle_loop cap out xs) ys"
  by (induction xs arbitrary: cap out) simp_all

lemma cap_after_append: "cap_after cap (xs @ ys) = cap_after (cap_after cap xs) ys"
  by (induction xs arbitrary: cap) simp_all

lemma cap_after_last:
  assumes "pre \<noteq> []" and "last pre \<noteq> CHR ''_''"
  shows "cap_after cap pre = False"
proof -
  have "pre = butlast pre @ [last pre]" using assms(1) by simp
  then have "cap_after cap pre = cap_after (cap_after cap (butlast pre)) [last pre]"
    using cap_after_append [of cap "butlast pre" "[last pre]"] by simp
  then show ?thesis using assms(2) by simp
qed

text \<open>
  Claim C1, as the code has it. The file name that Doxygen derives from
  \<open>PPB_Audio_1_1\<close> is \<open>struct_p_p_b___audio__1__1\<close>: every capital letter is written as
  an underscore and the small letter, every underscore is doubled. For that name
  \<open>GetName\<close> returns \<open>PPB_Audio\<close>: the prefix \<open>struct_\<close> is dropped, the loop decodes the
  rest to \<open>PPB_Audio_1_1\<close>, and the version suffix \<open>_1_1\<close> is removed. The same holds
  with the extension \<open>.html\<close> that the directory entries carry.
\<close>

theorem GetName_ppb_audio:
  "GetName ''struct_p_p_b___audio__1__1'' = ([], Inr ''PPB_Audio'')
   \<and> GetName ''struct_p_p_b___audio__1__1.html'' = ([], Inr ''PPB_Audio'')
   \<and> drop 7 ''struct_p_p_b___audio__1__1'' = ''p_p_b___audio__1__1''
   \<and> mangle_loop True [] ''p_p_b___audio__1__1'' = ''PPB_Audio_1_1''
   \<and> strip_version ''PPB_Audio_1_1'' = ''PPB_Audio''"
  by code_simp

text \<open>
  Claim C1, as the specification words it, fails: for the name
  \<open>struct_p_p_b__audio_1_1\<close> the underscore pair gives a literal underscore after which
  \<open>a\<close> stays small, the two single underscores are removed, and no version suffix is
  left to strip. The result is \<open>PPB_audio11\<close>.
\<close>

theorem GetName_spec_example_counterexample:
  "GetName ''struct_p_p_b__audio_1_1'' = ([], Inr ''PPB_audio11'')
   \<and> snd (GetName ''struct_p_p_b__audio_1_1'') \<noteq> Inr ''PPB_Audio''"
  by code_simp

text \<open>
  A name that starts with none of the eight prefixes and does not end in \<open>_8h\<close> (after
  its extension is dropped) makes \<open>GetName\<close> print the diagnostic and then raise
  \<open>UnboundLocalError\<close>: nothing is returned.
\<close>

lemma GetName_no_match:
  assumes "filename = fst (splitext fname)"
    and "\<not> startswith filename ''struct_p_p_b__''"
    and "\<not> startswith filename ''struct_p_p_p__''"
    and "\<not> startswith filename ''struct_p_p__''"
    and "\<not> startswith filename ''union_p_p__''"
    and "\<not> startswith filename ''classpp_1_1_''"
    and "\<not> startswith filename ''classpp_1_1ext_1_1_''"
    and "\<not> startswith filename ''classpp_1_1internal_1_1_''"
    and "\<not> startswith filename ''structpp_1_1internal_1_1_''"
    and "\<not> endswith filename ''_8h''"
  shows "GetName fname = ([''No match: '' @ filename], Inl (UnboundLocalError ''mangle''))"
  using assms unfolding GetName_def Let_def by simp

text \<open>
  Claim C2 at a name the C++ index really passes: \<open>classpp_1_1foo.html\<close> matches the
  wildcard \<open>classpp_1_1*.html\<close> and none of the prefixes of \<open>GetName\<close>. The diagnostic
  is printed, and instead of the empty string the call ends in \<open>UnboundLocalError\<close>.
\<close>

theorem GetName_unmatched_raises:
  "GetName ''classpp_1_1foo.html''
     = ([''No match: classpp_1_1foo''], Inl (UnboundLocalError ''mangle''))"
  by code_simp

text \<open>
  Claim C4, as the code has it. After a character that is not an underscore, an
  underscore pair puts one literal underscore into the output and the loop goes on
  without capitalising; a single underscore before a character \<open>c\<close> that is not an
  underscore is dropped and \<open>c\<close> is put out in upper case. At the start of the remainder
  the loop is in the state "one underscore read": a leading underscore is put out as it
  is and the loop goes on without capitalising.
\<close>

theorem mangle_loop_underscores:
  assumes "pre \<noteq> []" and "last pre \<noteq> CHR ''_''"
  shows "mangle_loop True [] (pre @ ''__'' @ post)
           = mangle_loop True [] pre @ ''_'' @ mangle_loop False [] post
         \<and> (\<forall>c. c \<noteq> CHR ''_'' \<longrightarrow>
               mangle_loop True [] (pre @ ''_'' @ c # post)
                 = mangle_loop True [] pre @ upper_char c # mangle_loop False [] post)
         \<and> mangle_loop True [] (CHR ''_'' # post) = CHR ''_'' # mangle_loop False [] post"
proof -
  have cap: "cap_after True pre = False"
    using assms by (rule cap_after_last)
  have two: "mangle_loop True [] (pre @ ''__'' @ post)
               = mangle_loop True [] pre @ ''_'' @ mangle_loop False [] post"
    using mangle_loop_out [of False "mangle_loop True [] pre @ ''_''" post]
    by (simp add: mangle_loop_append cap)
  have one: "mangle_loop True [] (pre @ ''_'' @ c # post)
               = mangle_loop True [] pre @ upper_char c # mangle_loop False [] post"
    if "c \<noteq> CHR ''_''" for c
    using that mangle_loop_out [of False "mangle_loop True [] pre @ [upper_char c]" post]
    by (simp add: mangle_loop_append cap)
  have start: "mangle_loop True [] (CHR ''_'' # post) = CHR ''_'' # mangle_loop False [] post"
    using mangle_loop_out [of False "''_''" post] by simp
  show ?thesis using two one start by blast
qed

theorem mangle_loop_underscores_witness:
  "''ab'' \<noteq> [] \<and> last ''ab'' \<noteq> CHR ''_''
   \<and> mangle_loop True [] (''ab'' @ ''__'' @ ''cd'') = ''Ab_cd''
   \<and> mangle_loop True [] (''ab'' @ ''_'' @ CHR ''c'' # ''d'') = ''AbCd''
   \<and> mangle_loop True [] (CHR ''_'' # ''cd'') = ''_cd''"
proof -
  have h1: "''ab'' \<noteq> []" by simp
  have h2: "last ''ab'' \<noteq> CHR ''_''" by simp
  have e1: "mangle_loop True [] ''ab'' = ''Ab''" by code_simp
  have e2: "mangle_loop False [] ''cd'' = ''cd''" by code_simp
  have e3: "mangle_loop False [] ''d'' = ''d''" by code_simp
  have e4: "upper_char CHR ''c'' = CHR ''C''" by code_simp
  have e5: "CHR ''c'' \<noteq> CHR ''_''" by simp
  from mangle_loop_underscores [OF h1 h2, of "''cd''"]
  have a: "mangle_loop True [] (''ab'' @ ''__'' @ ''cd'') = ''Ab_cd''"
    and c: "mangle_loop True [] (CHR ''_'' # ''cd'') = ''_cd''"
    by (simp_all only: e1 e2) simp_all
  from mangle_loop_underscores [OF h1 h2, of "''d''"] e5
  have "mangle_loop True [] (''ab'' @ ''_'' @ CHR ''c'' # ''d'')
          = mangle_loop True [] ''ab'' @ upper_char CHR ''c'' # mangle_loop False [] ''d''"
    by blast
  then have b: "mangle_loop True [] (''ab'' @ ''_'' @ CHR ''c'' # ''d'') = ''AbCd''"
    by (simp only: e1 e3 e4) simp
  show ?thesis using h1 h2 a b c by blast
qed

text \<open>
  Claim C4, as the specification words it, fails at the start of the remainder: in
  \<open>_x\<close> the single underscore is not removed and \<open>x\<close> is not capitalised. The file name
  \<open>classpp_1_1__x.html\<close> has this remainder.
\<close>

theorem mangle_loop_leading_underscore_counterexample:
  "mangle_loop True [] ''_x'' = ''_x''
   \<and> mangle_loop True [] ''_x'' \<noteq> [upper_char CHR ''x'']
   \<and> drop 12 (fst (splitext ''classpp_1_1__x.html'')) = ''_x''
   \<and> GetName ''classpp_1_1__x.html'' = ([], Inr ''_x'')"
  by code_simp

section \<open>Properties of the pattern matcher\<close>

lemma included_foldl:
  "foldl (\<lambda>good match. good @ fnmatch_filter m d match) acc ms
     = acc @ concat (map (fnmatch_filter m d) ms)"
  by (induction ms arbitrary: acc) simp_all

lemma excluded_foldl:
  "foldl (\<lambda>good exclude. filter (\<lambda>filename. \<not> m filename exclude) good) g ex
     = filter (\<lambda>f. \<forall>e\<in>set ex. \<not> m f e) g"
  by (induction ex arbitrary: g) (simp_all add: conj_commute)

lemma count_included:
  assumes "distinct d"
  shows "count_list (concat (map (fnmatch_filter m d) ms)) f
           = (if f \<in> set d then length (filter (m f) ms) else 0)"
proof (induction ms)
  case Nil
  show ?case by simp
next
  case (Cons p ps)
  have "count_list (fnmatch_filter m d p) f = (if f \<in> set d \<and> m f p then 1 else 0)"
    using assms by (induction d) (auto simp: fnmatch_filter_def)
  then show ?case using Cons by simp
qed

lemma count_list_filter:
  "count_list (filter P xs) f = (if P f then count_list xs f else 0)"
  by (induction xs) auto

lemma count_list_sort: "count_list (sort xs) f = count_list xs f"
  by (metis count_mset mset_sort)

lemma good_files_eq:
  "good_files m d ms ex
     = sort (filter (\<lambda>f. \<forall>xs\<in>set_option ex. \<forall>e\<in>set xs. \<not> m f e)
               (concat (map (fnmatch_filter m d) ms)))"
proof (cases ex)
  case None
  then show ?thesis by (simp add: good_files_def included_foldl)
next
  case (Some xs)
  show ?thesis
  proof (cases xs)
    case Nil
    then show ?thesis using Some by (simp add: good_files_def included_foldl)
  next
    case (Cons y ys)
    have "good_files m d ms ex
        = sort (foldl (\<lambda>good exclude. filter (\<lambda>filename. \<not> m filename exclude) good)
                   (concat (map (fnmatch_filter m d) ms)) xs)"
      unfolding good_files_def Let_def Some Cons included_foldl by simp
    then show ?thesis unfolding excluded_foldl Some by simp
  qed
qed

lemma good_files_sorted: "sorted (good_files m d ms ex)"
  unfolding good_files_eq by (rule sorted_sort)

lemma good_files_set:
  "set (good_files m d ms ex)
     = {f \<in> set d. (\<exists>p\<in>set ms. m f p)
          \<and> (\<forall>xs\<in>set_option ex. \<forall>e\<in>set xs. \<not> m f e)}"
proof -
  have "set (concat (map (fnmatch_filter m d) ms)) = {f \<in> set d. \<exists>p\<in>set ms. m f p}"
    by (induction ms) (auto simp: fnmatch_filter_def)
  then show ?thesis unfolding good_files_eq by auto
qed

lemma good_files_count:
  assumes "distinct d"
  shows "count_list (good_files m d ms ex) f
           = (if f \<in> set d \<and> (\<forall>xs\<in>set_option ex. \<forall>e\<in>set xs. \<not> m f e)
              then length (filter (m f) ms) else 0)"
  unfolding good_files_eq count_list_sort count_list_filter count_included [OF assms]
  by simp

lemma good_files_mset:
  assumes "mset l1 = mset l2"
  shows "good_files m l1 ms ex = good_files m l2 ms ex"
proof -
  have f: "mset (fnmatch_filter m l1 p) = mset (fnmatch_filter m l2 p)" for p
    using assms by (simp add: fnmatch_filter_def)
  have "mset (concat (map (fnmatch_filter m l1) ms)) = mset (concat (map (fnmatch_filter m l2) ms))"
    by (induction ms) (simp_all add: f)
  then have "mset (filter P (concat (map (fnmatch_filter m l1) ms)))
           = mset (filter P (concat (map (fnmatch_filter m l2) ms)))" for P
    by simp
  then have "sort (filter P (concat (map (fnmatch_filter m l1) ms)))
           = sort (filter P (concat (map (fnmatch_filter m l2) ms)))" for P
    using sorted_list_of_multiset_mset by metis
  then show ?thesis
    unfolding good_files_eq by simp
qed

text \<open>
  Claim C6, as the code has it. For a directory listing without repeated names, the
  sorted list \<open>good_files\<close> holds exactly the names that match at least one inclusion
  pattern and no exclusion pattern, in ascending order, and each of them once for every
  inclusion pattern (counted as often as it stands in the list) that it matches: the
  matches of the patterns are appended one after the other and nothing removes repeats.
\<close>

theorem good_files_contents:
  assumes "distinct dir_files"
  shows "sorted (good_files fnmatch dir_files matches excludes)
         \<and> set (good_files fnmatch dir_files matches excludes)
             = {f \<in> set dir_files. (\<exists>p\<in>set matches. fnmatch f p)
                  \<and> (\<forall>xs\<in>set_option excludes. \<forall>e\<in>set xs. \<not> fnmatch f e)}
         \<and> (\<forall>f. count_list (good_files fnmatch dir_files matches excludes) f
                 = (if f \<in> set dir_files
                       \<and> (\<forall>xs\<in>set_option excludes. \<forall>e\<in>set xs. \<not> fnmatch f e)
                    then length (filter (fnmatch f) matches) else 0))"
proof (intro conjI allI)
  show "sorted (good_files fnmatch dir_files matches excludes)"
    by (rule good_files_sorted)
  show "set (good_files fnmatch dir_files matches excludes)
             = {f \<in> set dir_files. (\<exists>p\<in>set matches. fnmatch f p)
                  \<and> (\<forall>xs\<in>set_option excludes. \<forall>e\<in>set xs. \<not> fnmatch f e)}"
    by (rule good_files_set)
  show "count_list (good_files fnmatch dir_files matches excludes) f
                 = (if f \<in> set dir_files
                       \<and> (\<forall>xs\<in>set_option excludes. \<forall>e\<in>set xs. \<not> fnmatch f e)
                    then length (filter (fnmatch f) matches) else 0)" for f
    by (rule good_files_count [OF assms])
qed

theorem good_files_contents_witness:
  "distinct [''ab'', ''ac'', ''b'']
   \<and> good_files wild [''ab'', ''ac'', ''b''] [''a*'', ''*b''] (Some [''*c'']) = [''ab'', ''ab'', ''b'']
   \<and> sorted (good_files wild [''ab'', ''ac'', ''b''] [''a*'', ''*b''] (Some [''*c'']))
   \<and> set (good_files wild [''ab'', ''ac'', ''b''] [''a*'', ''*b''] (Some [''*c'']))
       = {f \<in> set [''ab'', ''ac'', ''b'']. (\<exists>p\<in>set [''a*'', ''*b'']. wild f p)
            \<and> (\<forall>xs\<in>set_option (Some [''*c'']). \<forall>e\<in>set xs. \<not> wild f e)}
   \<and> count_list (good_files wild [''ab'', ''ac'', ''b''] [''a*'', ''*b''] (Some [''*c''])) ''ab''
       = length (filter (wild ''ab'') [''a*'', ''*b''])
   \<and> length (filter (wild ''ab'') [''a*'', ''*b'']) = 2"
proof -
  have d: "distinct [''ab'', ''ac'', ''b'']" by simp
  have v: "good_files wild [''ab'', ''ac'', ''b''] [''a*'', ''*b''] (Some [''*c''])
             = [''ab'', ''ab'', ''b'']"
    by code_simp
  have n: "length (filter (wild ''ab'') [''a*'', ''*b'']) = 2" by code_simp
  have c: "count_list [''ab'', ''ab'', ''b''] ''ab'' = 2" by simp
  note t = good_files_contents [OF d, of wild "[''a*'', ''*b'']" "Some [''*c'']"]
  from t have s: "sorted (good_files wild [''ab'', ''ac'', ''b''] [''a*'', ''*b''] (Some [''*c'']))"
    by (rule conjunct1)
  from t have m: "set (good_files wild [''ab'', ''ac'', ''b''] [''a*'', ''*b''] (Some [''*c'']))
       = {f \<in> set [''ab'', ''ac'', ''b'']. (\<exists>p\<in>set [''a*'', ''*b'']. wild f p)
            \<and> (\<forall>xs\<in>set_option (Some [''*c'']). \<forall>e\<in>set xs. \<not> wild f e)}"
    by (rule conjunct1 [OF conjunct2])
  have k: "count_list (good_files wild [''ab'', ''ac'', ''b''] [''a*'', ''*b''] (Some [''*c''])) ''ab''
       = length (filter (wild ''ab'') [''a*'', ''*b''])"
    unfolding v c n ..
  show ?thesis
    by (intro conjI) (rule d v s m k n)+
qed

text \<open>
  Claim C6, as the specification words it, fails where two inclusion patterns match the
  same name: \<open>ab\<close> matches both \<open>a*\<close> and \<open>*b\<close> and stands twice in the list.
\<close>

theorem good_files_duplicate_counterexample:
  "good_files wild [''ab''] [''a*'', ''*b''] None = [''ab'', ''ab'']
   \<and> \<not> distinct (good_files wild [''ab''] [''a*'', ''*b''] None)
   \<and> wild ''ab'' ''a*'' \<and> wild ''ab'' ''*b''"
  by code_simp


text \<open>
  Claim C7. Two listings of a directory that hold the same names, in whatever order,
  give the same sorted list \<open>good_files\<close> and so the same result of
  \<open>MakeReSTListFromFiles\<close> (the text, the lines printed, the exception); the display
  names are computed from the list after it is sorted by file name.
\<close>

theorem MakeReSTListFromFiles_order_independent:
  assumes "distinct l1" and "distinct l2" and "set l1 = set l2"
    and "listdir1 path = Some l1" and "listdir2 path = Some l2"
  shows "good_files fnmatch l1 matches excludes = good_files fnmatch l2 matches excludes
         \<and> sorted (good_files fnmatch l1 matches excludes)
         \<and> MakeReSTListFromFiles fnmatch listdir1 prefix path matches excludes
             = MakeReSTListFromFiles fnmatch listdir2 prefix path matches excludes"
proof -
  have "mset l1 = mset l2"
    using assms(1-3) by (simp add: set_eq_iff_mset_eq_distinct)
  then have g: "good_files fnmatch l1 matches excludes = good_files fnmatch l2 matches excludes"
    by (rule good_files_mset)
  have s: "sorted (good_files fnmatch l1 matches excludes)"
    by (rule good_files_sorted)
  have m: "MakeReSTListFromFiles fnmatch listdir1 prefix path matches excludes
             = MakeReSTListFromFiles fnmatch listdir2 prefix path matches excludes"
    by (simp add: MakeReSTListFromFiles_def assms(4,5) g)
  show ?thesis by (intro conjI) (rule g s m)+
qed

theorem MakeReSTListFromFiles_order_independent_witness:
  "distinct [''b_8h.html'', ''a_8h.html'', ''c.html'']
   \<and> distinct [''c.html'', ''a_8h.html'', ''b_8h.html'']
   \<and> set [''b_8h.html'', ''a_8h.html'', ''c.html''] = set [''c.html'', ''a_8h.html'', ''b_8h.html'']
   \<and> good_files wild [''c.html'', ''a_8h.html'', ''b_8h.html''] FILE_WILDCARDS None
       = [''a_8h.html'', ''b_8h.html'']
   \<and> good_files wild [''b_8h.html'', ''a_8h.html'', ''c.html''] FILE_WILDCARDS None
       = good_files wild [''c.html'', ''a_8h.html'', ''b_8h.html''] FILE_WILDCARDS None
   \<and> MakeReSTListFromFiles wild [''d'' \<mapsto> [''b_8h.html'', ''a_8h.html'', ''c.html'']]
         ''p'' ''d'' FILE_WILDCARDS None
       = MakeReSTListFromFiles wild [''d'' \<mapsto> [''c.html'', ''a_8h.html'', ''b_8h.html'']]
         ''p'' ''d'' FILE_WILDCARDS None"
proof -
  have d1: "distinct [''b_8h.html'', ''a_8h.html'', ''c.html'']" by simp
  have d2: "distinct [''c.html'', ''a_8h.html'', ''b_8h.html'']" by simp
  have s: "set [''b_8h.html'', ''a_8h.html'', ''c.html'']
             = set [''c.html'', ''a_8h.html'', ''b_8h.html'']"
    by (simp add: insert_commute)
  have l1: "[''d'' \<mapsto> [''b_8h.html'', ''a_8h.html'', ''c.html'']] ''d''
              = Some [''b_8h.html'', ''a_8h.html'', ''c.html'']" by simp
  have l2: "[''d'' \<mapsto> [''c.html'', ''a_8h.html'', ''b_8h.html'']] ''d''
              = Some [''c.html'', ''a_8h.html'', ''b_8h.html'']" by simp
  have v: "good_files wild [''c.html'', ''a_8h.html'', ''b_8h.html''] FILE_WILDCARDS None
             = [''a_8h.html'', ''b_8h.html'']"
    by code_simp
  note t = MakeReSTListFromFiles_order_independent
      [where ?listdir1.0 = "[''d'' \<mapsto> [''b_8h.html'', ''a_8h.html'', ''c.html'']]"
         and ?listdir2.0 = "[''d'' \<mapsto> [''c.html'', ''a_8h.html'', ''b_8h.html'']]"
         and path = "''d''" and fnmatch = wild and matches = FILE_WILDCARDS
         and excludes = None and prefix = "''p''", OF d1 d2 s l1 l2]
  from t have g: "good_files wild [''b_8h.html'', ''a_8h.html'', ''c.html''] FILE_WILDCARDS None
       = good_files wild [''c.html'', ''a_8h.html'', ''b_8h.html''] FILE_WILDCARDS None"
    by (rule conjunct1)
  from t have m: "MakeReSTListFromFiles wild [''d'' \<mapsto> [''b_8h.html'', ''a_8h.html'', ''c.html'']]
         ''p'' ''d'' FILE_WILDCARDS None
       = MakeReSTListFromFiles wild [''d'' \<mapsto> [''c.html'', ''a_8h.html'', ''b_8h.html'']]
         ''p'' ''d'' FILE_WILDCARDS None"
    by (rule conjunct2 [OF conjunct2])
  show ?thesis by (intro conjI) (rule d1 d2 s v g m)+
qed

section \<open>Properties of the index generators\<close>

lemma GenerateRootIndex_cases:
  "(\<exists>e. GenerateRootIndex fs channel version out = (fs, [], Inl e))
   \<or> (\<exists>doc. GenerateRootIndex fs channel version out = (fs(out \<mapsto> doc), [], Inr ()))"
  by (auto simp: GenerateRootIndex_def Let_def split: sum.split)

lemma GenerateCIndex_cases:
  "(\<exists>p e. GenerateCIndex m ld fs root channel version out = (fs, p, Inl e))
   \<or> (\<exists>p doc. GenerateCIndex m ld fs root channel version out = (fs(out \<mapsto> doc), p, Inr ()))"
  by (auto simp: GenerateCIndex_def Let_def split: sum.split prod.split)

lemma GenerateCppIndex_cases:
  "(\<exists>p e. GenerateCppIndex m ld fs root channel version out = (fs, p, Inl e))
   \<or> (\<exists>p doc. GenerateCppIndex m ld fs root channel version out = (fs(out \<mapsto> doc), p, Inr ()))"
  by (auto simp: GenerateCppIndex_def Let_def split: sum.split prod.split)

text \<open>
  Claim C9. Each of the three generators computes the lists, the title and the whole
  document before it opens the output file. When one of them ends in an exception, from
  the directory listing, the name demangler or the title, the files are as they were:
  the output file is neither created nor truncated.
\<close>

theorem generators_write_last:
  "(\<forall>e. snd (snd (GenerateRootIndex fs channel version out)) = Inl e
        \<longrightarrow> fst (GenerateRootIndex fs channel version out) = fs)
   \<and> (\<forall>e. snd (snd (GenerateCIndex fnmatch listdir fs root_dir channel version out)) = Inl e
        \<longrightarrow> fst (GenerateCIndex fnmatch listdir fs root_dir channel version out) = fs)
   \<and> (\<forall>e. snd (snd (GenerateCppIndex fnmatch listdir fs root_dir channel version out)) = Inl e
        \<longrightarrow> fst (GenerateCppIndex fnmatch listdir fs root_dir channel version out) = fs)"
proof (intro conjI allI impI)
  fix e
  assume "snd (snd (GenerateRootIndex fs channel version out)) = Inl e"
  then show "fst (GenerateRootIndex fs channel version out) = fs"
    using GenerateRootIndex_cases [of fs channel version out] by auto
next
  fix e
  assume "snd (snd (GenerateCIndex fnmatch listdir fs root_dir channel version out)) = Inl e"
  then show "fst (GenerateCIndex fnmatch listdir fs root_dir channel version out) = fs"
    using GenerateCIndex_cases [of fnmatch listdir fs root_dir channel version out] by auto
next
  fix e
  assume "snd (snd (GenerateCppIndex fnmatch listdir fs root_dir channel version out)) = Inl e"
  then show "fst (GenerateCppIndex fnmatch listdir fs root_dir channel version out) = fs"
    using GenerateCppIndex_cases [of fnmatch listdir fs root_dir channel version out] by auto
qed


theorem generators_write_last_witness:
  "snd (snd (GenerateRootIndex [''out.rst'' \<mapsto> ''old''] [] (Some ''65'') ''out.rst''))
     = Inl IndexError
   \<and> fst (GenerateRootIndex [''out.rst'' \<mapsto> ''old''] [] (Some ''65'') ''out.rst'')
     = [''out.rst'' \<mapsto> ''old'']
   \<and> snd (snd (GenerateCIndex wild Map.empty [''out.rst'' \<mapsto> ''old''] ''d'' ''dev''
                  (Some ''65'') ''out.rst''))
     = Inl (OSError ''d'')
   \<and> fst (GenerateCIndex wild Map.empty [''out.rst'' \<mapsto> ''old''] ''d'' ''dev''
            (Some ''65'') ''out.rst'')
     = [''out.rst'' \<mapsto> ''old'']
   \<and> snd (GenerateCppIndex wild [''d'' \<mapsto> [''classpp_1_1foo.html'']]
            [''out.rst'' \<mapsto> ''old''] ''d'' ''dev'' (Some ''65'') ''out.rst'')
     = ([''No match: classpp_1_1foo''], Inl (UnboundLocalError ''mangle''))
   \<and> fst (GenerateCppIndex wild [''d'' \<mapsto> [''classpp_1_1foo.html'']]
            [''out.rst'' \<mapsto> ''old''] ''d'' ''dev'' (Some ''65'') ''out.rst'')
     = [''out.rst'' \<mapsto> ''old'']"
proof -
  have r1: "snd (snd (GenerateRootIndex [''out.rst'' \<mapsto> ''old''] [] (Some ''65'') ''out.rst''))
              = Inl IndexError"
    by code_simp
  have r2: "snd (snd (GenerateCIndex wild Map.empty [''out.rst'' \<mapsto> ''old''] ''d'' ''dev''
                  (Some ''65'') ''out.rst''))
              = Inl (OSError ''d'')"
    by code_simp
  have r3: "snd (GenerateCppIndex wild [''d'' \<mapsto> [''classpp_1_1foo.html'']]
            [''out.rst'' \<mapsto> ''old''] ''d'' ''dev'' (Some ''65'') ''out.rst'')
              = ([''No match: classpp_1_1foo''], Inl (UnboundLocalError ''mangle''))"
    by code_simp
  note t = generators_write_last [where fs = "[''out.rst'' \<mapsto> ''old'']"
      and version = "Some ''65''" and out = "''out.rst''" and fnmatch = wild and root_dir = "''d''"]
  have f1: "fst (GenerateRootIndex [''out.rst'' \<mapsto> ''old''] [] (Some ''65'') ''out.rst'')
              = [''out.rst'' \<mapsto> ''old'']"
    using t [where channel = "[]"] r1 by blast
  have f2: "fst (GenerateCIndex wild Map.empty [''out.rst'' \<mapsto> ''old''] ''d'' ''dev''
            (Some ''65'') ''out.rst'')
              = [''out.rst'' \<mapsto> ''old'']"
    using t [where channel = "''dev''" and listdir = Map.empty] r2 by blast
  have r3': "snd (snd (GenerateCppIndex wild [''d'' \<mapsto> [''classpp_1_1foo.html'']]
            [''out.rst'' \<mapsto> ''old''] ''d'' ''dev'' (Some ''65'') ''out.rst''))
              = Inl (UnboundLocalError ''mangle'')"
    by (simp add: r3)
  have f3: "fst (GenerateCppIndex wild [''d'' \<mapsto> [''classpp_1_1foo.html'']]
            [''out.rst'' \<mapsto> ''old''] ''d'' ''dev'' (Some ''65'') ''out.rst'')
              = [''out.rst'' \<mapsto> ''old'']"
    using t [where channel = "''dev''" and listdir = "[''d'' \<mapsto> [''classpp_1_1foo.html'']]"] r3'
    by blast
  show ?thesis by (intro conjI) (rule r1 r2 r3 f1 f2 f3)+
qed

section \<open>Properties of the localization tool\<close>

lemma write_localizable_prefix:
  assumes "map (localizable_entry m r h p) pre = map Inr lines"
  shows "write_localizable m r h p w (pre @ rest)
           = write_localizable m r h p (w @ concat lines) rest"
  using assms
proof (induction pre arbitrary: w lines)
  case Nil
  then show ?case by simp
next
  case (Cons i pre)
  from Cons.prems obtain l ls where l: "lines = l # ls"
    and e: "localizable_entry m r h p i = Inr l"
    and t: "map (localizable_entry m r h p) pre = map Inr ls"
    by (cases lines) auto
  show ?case using Cons.IH [OF t, of "w @ l"] by (simp add: e l)
qed

lemma write_localizable_success:
  assumes "write_localizable m r h p w ids = (c, Inr ())"
  shows "\<exists>lines. map (localizable_entry m r h p) ids = map Inr lines \<and> c = w @ concat lines"
  using assms
proof (induction ids arbitrary: w)
  case Nil
  then show ?case by simp
next
  case (Cons i ids)
  from Cons.prems obtain l where e: "localizable_entry m r h p i = Inr l"
    by (cases "localizable_entry m r h p i") auto
  with Cons.prems have "write_localizable m r h p (w @ l) ids = (c, Inr ())" by simp
  from Cons.IH [OF this] obtain ls
    where "map (localizable_entry m r h p) ids = map Inr ls" and "c = (w @ l) @ concat ls"
    by blast
  then have "map (localizable_entry m r h p) (i # ids) = map Inr (l # ls) \<and> c = w @ concat (l # ls)"
    using e by simp
  then show ?case by blast
qed

lemma write_localizable_failure:
  assumes "map (localizable_entry m r h p) pre = map Inr lines"
    and "localizable_entry m r h p bad = Inl e"
  shows "write_localizable m r h p [] (pre @ bad # post) = (concat lines, Inl e)"
  using write_localizable_prefix [OF assms(1), of "[]" "bad # post"] assms(2) by simp

lemma strings_paths_differ:
  "path_join d LOCALIZABLE_STRINGS \<noteq> path_join d INFOPLIST_STRINGS"
  by (simp add: path_join_def LOCALIZABLE_STRINGS_def INFOPLIST_STRINGS_def startswith_def)

lemma generate_locale_localizable_file:
  assumes "ReadDataPack env (path_join fdir (locale @ ''.pak'')) = Inr resources"
  shows "fst (fst (generate_locale env id_map ids tmpl fdir tdir hdr st locale))
           (path_join (format_lproj_dir tdir locale) LOCALIZABLE_STRINGS)
         = Some (fst (write_localizable id_map resources hdr
                        (path_join (format_lproj_dir tdir locale) LOCALIZABLE_STRINGS) [] ids))"
  using strings_paths_differ [of "format_lproj_dir tdir locale"]
  by (simp add: generate_locale_def assms Let_def split: prod.split sum.split)

lemma generate_locale_failure:
  assumes "ReadDataPack env (path_join fdir (locale @ ''.pak'')) = Inr resources"
    and "write_localizable id_map resources hdr
           (path_join (format_lproj_dir tdir locale) LOCALIZABLE_STRINGS) [] ids = (written, Inl e)"
  shows "generate_locale env id_map ids tmpl fdir tdir hdr (fs, err) locale
         = ((fs(path_join (format_lproj_dir tdir locale) LOCALIZABLE_STRINGS \<mapsto> written),
             err @ [''Error while creating ''
                    @ path_join (format_lproj_dir tdir locale) LOCALIZABLE_STRINGS @ ''\<newline>'']),
            Inl e)"
  by (simp add: generate_locale_def assms Let_def)

lemma entry_zero_id:
  "localizable_entry (id_map(name \<mapsto> 0)) resources hdr p
     = localizable_entry (id_map(name := None)) resources hdr p"
  by (rule ext) (simp add: localizable_entry_def falsy_int_def)

lemma entry_empty_string:
  "localizable_entry id_map (resources(v \<mapsto> [])) hdr p
     = localizable_entry id_map (resources(v := None)) hdr p"
  by (rule ext) (simp add: localizable_entry_def falsy_str_def Let_def)

lemma getattr_zero_id:
  "adapter_getattr (id_map(name \<mapsto> 0)) resources
     = adapter_getattr (id_map(name := None)) resources"
  by (rule ext) (simp add: adapter_getattr_def falsy_int_def)

lemma getattr_empty_string:
  "adapter_getattr id_map (resources(v \<mapsto> []))
     = adapter_getattr id_map (resources(v := None))"
  by (rule ext) (simp add: adapter_getattr_def falsy_str_def Let_def)

lemma write_localizable_cong:
  assumes "localizable_entry m r h p = localizable_entry m' r' h p"
  shows "write_localizable m r h p w ids = write_localizable m' r' h p w ids"
  by (induction ids arbitrary: w) (simp_all add: assms split: sum.split)

lemma generate_locale_zero_id:
  "generate_locale env (id_map(name \<mapsto> 0)) ids tmpl fdir tdir hdr st locale
     = generate_locale env (id_map(name := None)) ids tmpl fdir tdir hdr st locale"
  unfolding generate_locale_def getattr_zero_id
    write_localizable_cong [OF entry_zero_id [of id_map name _ hdr]]
  by (rule refl)

lemma generate_locales_zero_id:
  "generate_locales env (id_map(name \<mapsto> 0)) ids tmpl fdir tdir hdr st locales
     = generate_locales env (id_map(name := None)) ids tmpl fdir tdir hdr st locales"
  by (induction locales arbitrary: st) (simp_all add: generate_locale_zero_id)

lemma entry_emitted:
  assumes "localizable_entry id_map resources hdr p name = Inr line"
  shows "\<exists>v d. id_map name = Some v \<and> v \<noteq> 0 \<and> resources v = Some d \<and> d \<noteq> []"
proof -
  from assms have a: "\<not> falsy_int (id_map name)"
    by (auto simp: localizable_entry_def)
  then obtain v where v: "id_map name = Some v" "v \<noteq> 0"
    by (auto simp: falsy_int_def split: option.splits)
  from assms a v have "\<not> falsy_str (resources v)"
    by (auto simp: localizable_entry_def Let_def)
  then obtain d where "resources v = Some d" "d \<noteq> []"
    by (auto simp: falsy_str_def split: option.splits)
  with v show ?thesis by blast
qed

lemma getattr_emitted:
  assumes "adapter_getattr id_map resources name = Inr u"
  shows "\<exists>v d. id_map name = Some v \<and> v \<noteq> 0 \<and> resources v = Some d \<and> d \<noteq> []"
proof -
  from assms have a: "\<not> falsy_int (id_map name)"
    by (auto simp: adapter_getattr_def)
  then obtain v where v: "id_map name = Some v" "v \<noteq> 0"
    by (auto simp: falsy_int_def split: option.splits)
  from assms a v have "\<not> falsy_str (resources v)"
    by (auto simp: adapter_getattr_def Let_def)
  then obtain d where "resources v = Some d" "d \<noteq> []"
    by (auto simp: falsy_str_def split: option.splits)
  with v show ?thesis by blast
qed

lemma entry_missing:
  assumes "id_map bad = None \<or> (\<exists>v. id_map bad = Some v \<and> v \<noteq> 0 \<and> resources v = None)"
  shows "\<exists>msg. localizable_entry id_map resources hdr p bad = Inl (LocalizeException msg)"
  using assms
  by (auto simp: localizable_entry_def falsy_int_def falsy_str_def Let_def)


text \<open>
  The escaping at work: a backslash and a double quote each get a backslash in front,
  and the two bytes \<open>C3 A9\<close> are one character.
\<close>

lemma decode_and_escape_example:
  "decode_and_escape [CHR ''a'', CHR 0x5C, CHR 0x22, CHR 0xC3, CHR 0xA9]
     = Inr [97, 92, 92, 92, 34, 233]"
  by code_simp

lemma write_localizable_extends:
  "\<exists>rest. fst (write_localizable m r h p w ids) = w @ rest"
proof (induction ids arbitrary: w)
  case Nil
  show ?case by simp
next
  case (Cons i ids)
  show ?case
  proof (cases "localizable_entry m r h p i")
    case (Inl e)
    then show ?thesis by simp
  next
    case (Inr line)
    from Cons [of "w @ line"] obtain rest
      where "fst (write_localizable m r h p (w @ line) ids) = (w @ line) @ rest"
      by blast
    then have "fst (write_localizable m r h p w (i # ids)) = w @ (line @ rest)"
      using Inr by simp
    then show ?thesis by blast
  qed
qed

lemma lproj_dir_shape: "\<exists>y. format_lproj_dir tdir l = y @ ''.lproj''"
proof -
  have "\<exists>y. path_join a (x @ ''.lproj'') = y @ ''.lproj''" for a x :: string
  proof -
    have "path_join a (x @ ''.lproj'') = x @ ''.lproj''
          \<or> path_join a (x @ ''.lproj'') = (a @ x) @ ''.lproj''
          \<or> path_join a (x @ ''.lproj'') = (a @ ''/'' @ x) @ ''.lproj''"
      by (simp add: path_join_def)
    then show ?thesis by blast
  qed
  then show ?thesis unfolding format_lproj_dir_def by blast
qed

lemma lproj_file_path:
  assumes "\<not> startswith name ''/''"
  shows "path_join (format_lproj_dir tdir l) name = format_lproj_dir tdir l @ ''/'' @ name"
proof -
  obtain y where y: "format_lproj_dir tdir l = y @ ''.lproj''"
    using lproj_dir_shape by blast
  have "\<not> endswith (y @ ''.lproj'') ''/''"
    by (simp add: endswith_def)
  then show ?thesis using assms by (simp add: path_join_def y)
qed

lemma localizable_path:
  "path_join (format_lproj_dir tdir l) LOCALIZABLE_STRINGS
     = format_lproj_dir tdir l @ ''/Localizable.strings''"
  using lproj_file_path [of LOCALIZABLE_STRINGS tdir l]
  by (simp add: LOCALIZABLE_STRINGS_def startswith_def)

lemma infoplist_path:
  "path_join (format_lproj_dir tdir l) INFOPLIST_STRINGS
     = format_lproj_dir tdir l @ ''/InfoPlist.strings''"
  using lproj_file_path [of INFOPLIST_STRINGS tdir l]
  by (simp add: INFOPLIST_STRINGS_def startswith_def)

lemma names_differ: "d1 @ ''/Localizable.strings'' \<noteq> d2 @ ''/InfoPlist.strings''"
proof
  assume "d1 @ ''/Localizable.strings'' = d2 @ ''/InfoPlist.strings''"
  then have "rev (d1 @ ''/Localizable.strings'') = rev (d2 @ ''/InfoPlist.strings'')"
    by simp
  then show False by simp
qed

lemma generate_locale_other_path:
  assumes "p \<noteq> path_join (format_lproj_dir tdir l) LOCALIZABLE_STRINGS"
    and "p \<noteq> path_join (format_lproj_dir tdir l) INFOPLIST_STRINGS"
  shows "fst (fst (generate_locale env id_map ids tmpl fdir tdir hdr st l)) p = fst st p"
  using assms
  by (simp add: generate_locale_def Let_def split: sum.split prod.split)

lemma generate_locales_other_dirs:
  assumes "\<forall>l\<in>set ls. format_lproj_dir tdir l \<noteq> d"
  shows "fst (fst (generate_locales env id_map ids tmpl fdir tdir hdr st ls))
           (d @ ''/Localizable.strings'')
         = fst st (d @ ''/Localizable.strings'')"
  using assms
proof (induction ls arbitrary: st)
  case Nil
  show ?case by simp
next
  case (Cons l ls)
  have n: "format_lproj_dir tdir l \<noteq> d" using Cons.prems by simp
  have k: "fst (fst (generate_locale env id_map ids tmpl fdir tdir hdr st l))
             (d @ ''/Localizable.strings'')
           = fst st (d @ ''/Localizable.strings'')"
    using n names_differ [of d "format_lproj_dir tdir l"]
    by (intro generate_locale_other_path) (simp_all add: localizable_path infoplist_path)
  obtain st' r where g: "generate_locale env id_map ids tmpl fdir tdir hdr st l = (st', r)"
    by (cases "generate_locale env id_map ids tmpl fdir tdir hdr st l")
  show ?case
  proof (cases r)
    case (Inl e)
    then show ?thesis using g k by simp
  next
    case (Inr u)
    have "fst (fst (generate_locales env id_map ids tmpl fdir tdir hdr st' ls))
             (d @ ''/Localizable.strings'')
           = fst st' (d @ ''/Localizable.strings'')"
      using Cons.IH Cons.prems by simp
    then show ?thesis using g k Inr by simp
  qed
qed

lemma generate_locales_append:
  assumes "snd (generate_locales env id_map ids tmpl fdir tdir hdr st before) = Inr ()"
  shows "generate_locales env id_map ids tmpl fdir tdir hdr st (before @ rest)
         = generate_locales env id_map ids tmpl fdir tdir hdr
             (fst (generate_locales env id_map ids tmpl fdir tdir hdr st before)) rest"
  using assms
proof (induction before arbitrary: st)
  case Nil
  show ?case by simp
next
  case (Cons l ls)
  obtain st' r where g: "generate_locale env id_map ids tmpl fdir tdir hdr st l = (st', r)"
    by (cases "generate_locale env id_map ids tmpl fdir tdir hdr st l")
  show ?case
  proof (cases r)
    case (Inl e)
    then show ?thesis using g Cons.prems by simp
  next
    case (Inr u)
    then have "snd (generate_locales env id_map ids tmpl fdir tdir hdr st' ls) = Inr ()"
      using g Cons.prems by simp
    from Cons.IH [OF this] show ?thesis using g Inr by simp
  qed
qed

lemma entry_ids_x:
  assumes "id_map ''IDS_X'' = Some 1" and "resources 1 = Some data" and "data \<noteq> []"
    and "utf8_decode data = Inr u"
  shows \<open>localizable_entry id_map resources hdr p ''IDS_X''
           = Inr (ustr ''"IDS_X" = "'' @ replace (replace u [92] [92, 92]) [34] [92, 34]
                  @ ustr ''";\<newline>'')\<close>
proof -
  have a: "ascii_decode ''IDS_X'' = Inr (ustr ''IDS_X'')" by code_simp
  have b: "ustr [CHR 0x5C] = [92]" "ustr [CHR 0x5C, CHR 0x5C] = [92, 92]"
    "ustr [CHR 0x22] = [34]" "ustr [CHR 0x5C, CHR 0x22] = [92, 34]"
    by (simp_all add: ustr_def)
  have d: "decode_and_escape data = Inr (replace (replace u [92] [92, 92]) [34] [92, 34])"
    by (simp add: decode_and_escape_def assms(4) b)
  show ?thesis
    by (simp add: localizable_entry_def falsy_int_def falsy_str_def assms(1-3) d a ustr_def)
qed

lemma hello_escaped:
  "utf8_decode ''hello'' = Inr (ustr ''hello'')
   \<and> replace (replace (ustr ''hello'') [92] [92, 92]) [34] [92, 34] = ustr ''hello''"
  by code_simp

text \<open>
  Claim C5, as the code has it. Let the header map \<open>IDS_X\<close> to 1, let the data pack of
  a locale map 1 to a payload that is not empty and decodes as UTF-8, and let \<open>IDS_X\<close>
  be in the list of IDs. If every ID before \<open>IDS_X\<close> in the list yields its line, every
  locale before this one is generated without an exception, and no later locale has the
  same \<open>.lproj\<close> directory, then after \<open>generate\<close> the file \<open>Localizable.strings\<close> of
  the locale holds, after the lines of the earlier IDs, the line of \<open>IDS_X\<close>: the ID in
  quotes, \<open>=\<close>, and in quotes the decoded payload in which every backslash and every
  double quote has a backslash in front. For the payload \<open>hello\<close> this is the line
  \<open>"IDS_X" = "hello";\<close> with its newline. What follows \<open>IDS_X\<close> in the list, and
  whether the loop ends with an exception there, does not matter.
\<close>

theorem generate_writes_line:
  assumes "read_resources_header env hdr = Inr id_map"
    and "read_id_list env lst = Inr (pre @ ''IDS_X'' # post)"
    and "read_jinja2_template env tp = Inr tmpl"
    and "ReadDataPack env (path_join fdir (locale @ ''.pak'')) = Inr resources"
    and "id_map ''IDS_X'' = Some 1"
    and "resources 1 = Some data" and "data \<noteq> []" and "utf8_decode data = Inr u"
    and "lpath = path_join (format_lproj_dir tdir locale) LOCALIZABLE_STRINGS"
    and "map (localizable_entry id_map resources hdr lpath) pre = map Inr lines"
    and "snd (generate_locales env id_map (pre @ ''IDS_X'' # post) tmpl fdir tdir hdr st before)
           = Inr ()"
    and "\<forall>l\<in>set after. format_lproj_dir tdir l \<noteq> format_lproj_dir tdir locale"
  shows \<open>(\<exists>rest.
            fst (fst (generate env st fdir tdir lst tp hdr (before @ locale # after))) lpath
            = Some (concat lines
                    @ ustr ''"IDS_X" = "'' @ replace (replace u [92] [92, 92]) [34] [92, 34]
                    @ ustr ''";\<newline>'' @ rest))
         \<and> (data = ''hello'' \<longrightarrow>
              (\<exists>rest.
                 fst (fst (generate env st fdir tdir lst tp hdr (before @ locale # after))) lpath
                 = Some (concat lines @ ustr ''"IDS_X" = "hello";\<newline>'' @ rest)))\<close>
proof -
  let ?ids = "pre @ ''IDS_X'' # post"
  let ?esc = "replace (replace u [92] [92, 92]) [34] [92, 34]"
  let ?line = \<open>ustr ''"IDS_X" = "'' @ ?esc @ ustr ''";\<newline>''\<close>
  let ?d = "format_lproj_dir tdir locale"
  have lp: "lpath = ?d @ ''/Localizable.strings''"
    by (simp add: assms(9) localizable_path)
  have e: "localizable_entry id_map resources hdr lpath ''IDS_X'' = Inr ?line"
    using assms(5-8) by (rule entry_ids_x)
  have "write_localizable id_map resources hdr lpath [] ?ids
          = write_localizable id_map resources hdr lpath (concat lines @ ?line) post"
    using write_localizable_prefix [OF assms(10), of "[]" "''IDS_X'' # post"] e by simp
  moreover obtain rest
    where "fst (write_localizable id_map resources hdr lpath (concat lines @ ?line) post)
             = (concat lines @ ?line) @ rest"
    using write_localizable_extends by blast
  ultimately have w: "fst (write_localizable id_map resources hdr lpath [] ?ids)
                        = concat lines @ ?line @ rest"
    by simp
  let ?st1 = "fst (generate_locales env id_map ?ids tmpl fdir tdir hdr st before)"
  obtain st2 r
    where g2: "generate_locale env id_map ?ids tmpl fdir tdir hdr ?st1 locale = (st2, r)"
    by (cases "generate_locale env id_map ?ids tmpl fdir tdir hdr ?st1 locale")
  have f2: "fst st2 lpath = Some (concat lines @ ?line @ rest)"
    using generate_locale_localizable_file [OF assms(4), of id_map ?ids tmpl tdir hdr ?st1]
    by (simp add: g2 w [unfolded assms(9)] assms(9))
  have g: "generate env st fdir tdir lst tp hdr (before @ locale # after)
             = generate_locales env id_map ?ids tmpl fdir tdir hdr ?st1 (locale # after)"
    by (simp add: generate_def assms(1-3) generate_locales_append [OF assms(11)])
  have f: "fst (fst (generate env st fdir tdir lst tp hdr (before @ locale # after))) lpath
             = Some (concat lines @ ?line @ rest)"
  proof (cases r)
    case (Inl err)
    then show ?thesis using g g2 f2 by simp
  next
    case (Inr v)
    have "fst (fst (generate_locales env id_map ?ids tmpl fdir tdir hdr st2 after)) lpath
            = fst st2 lpath"
      unfolding lp using assms(12) by (rule generate_locales_other_dirs)
    then show ?thesis using g g2 f2 Inr by simp
  qed
  have first: \<open>\<exists>rest.
            fst (fst (generate env st fdir tdir lst tp hdr (before @ locale # after))) lpath
            = Some (concat lines
                    @ ustr ''"IDS_X" = "'' @ replace (replace u [92] [92, 92]) [34] [92, 34]
                    @ ustr ''";\<newline>'' @ rest)\<close>
    by (rule exI [of _ rest]) (simp add: f)
  have second: \<open>\<exists>rest.
                 fst (fst (generate env st fdir tdir lst tp hdr (before @ locale # after))) lpath
                 = Some (concat lines @ ustr ''"IDS_X" = "hello";\<newline>'' @ rest)\<close>
    if h: "data = ''hello''"
  proof -
    have "u = ustr ''hello''" using assms(8) hello_escaped by (simp add: h)
    then have \<open>?line = ustr ''"IDS_X" = "hello";\<newline>''\<close>
      using hello_escaped by (simp add: ustr_def)
    then show ?thesis by (intro exI [of _ rest]) (simp add: f)
  qed
  show ?thesis using first second by blast
qed

theorem generate_writes_line_witness:
  \<open>read_id_list sample_inputs ''ids.txt'' = Inr ([] @ ''IDS_X'' # [])
   \<and> utf8_decode ''hello'' = Inr (ustr ''hello'')
   \<and> ''to/en_US.lproj/Localizable.strings''
       = path_join (format_lproj_dir ''to'' ''en-US'') LOCALIZABLE_STRINGS
   \<and> snd (generate_locales sample_inputs [''IDS_X'' \<mapsto> 1] ([] @ ''IDS_X'' # [])
            (\<lambda>ids. ids ''IDS_X'') ''from'' ''to'' ''h.h'' (Map.empty, []) [''de''])
       = Inr ()
   \<and> format_lproj_dir ''to'' ''fr'' \<noteq> format_lproj_dir ''to'' ''en-US''
   \<and> (\<exists>rest.
         fst (fst (generate sample_inputs (Map.empty, []) ''from'' ''to'' ''ids.txt'' ''t.jinja2''
                     ''h.h'' ([''de''] @ ''en-US'' # [''fr''])))
           ''to/en_US.lproj/Localizable.strings''
         = Some (concat [] @ ustr ''"IDS_X" = "hello";\<newline>'' @ rest))
   \<and> fst (fst (generate sample_inputs (Map.empty, []) ''from'' ''to'' ''ids.txt'' ''t.jinja2''
                  ''h.h'' ([''de''] @ ''en-US'' # [''fr''])))
         ''to/en_US.lproj/Localizable.strings''
       = Some (ustr ''"IDS_X" = "hello";\<newline>'')
   \<and> utf8_decode [CHR ''a'', CHR 0x5C, CHR 0x22, CHR 0xC3, CHR 0xA9] = Inr [97, 92, 34, 233]
   \<and> replace (replace [97, 92, 34, 233] [92] [92, 92]) [34] [92, 34]
       = [97, 92, 92, 92, 34, 233::nat]
   \<and> (\<exists>rest.
         fst (fst (generate
                     (sample_inputs\<lparr>ReadDataPack :=
                        (\<lambda>path. Inr [1 \<mapsto> [CHR ''a'', CHR 0x5C, CHR 0x22, CHR 0xC3, CHR 0xA9]])\<rparr>)
                     (Map.empty, []) ''from'' ''to'' ''ids2.txt'' ''t.jinja2'' ''h.h''
                     ([] @ ''en'' # [])))
           ''to/en.lproj/Localizable.strings''
         = Some (concat [] @ ustr ''"IDS_X" = "''
                 @ replace (replace [97, 92, 34, 233] [92] [92, 92]) [34] [92, 34]
                 @ ustr ''";\<newline>'' @ rest))
   \<and> snd (generate
            (sample_inputs\<lparr>ReadDataPack :=
               (\<lambda>path. Inr [1 \<mapsto> [CHR ''a'', CHR 0x5C, CHR 0x22, CHR 0xC3, CHR 0xA9]])\<rparr>)
            (Map.empty, []) ''from'' ''to'' ''ids2.txt'' ''t.jinja2'' ''h.h'' ([] @ ''en'' # []))
       = Inl (LocalizeException ''Could not find "IDS_GONE" in h.h'')\<close>
proof -
  let ?esc = "[CHR ''a'', CHR 0x5C, CHR 0x22, CHR 0xC3, CHR 0xA9]"
  let ?env = "sample_inputs\<lparr>ReadDataPack := (\<lambda>path. Inr [1 \<mapsto> ?esc])\<rparr>"
  have a1: "read_resources_header sample_inputs ''h.h'' = Inr [''IDS_X'' \<mapsto> 1]"
    by (simp add: sample_inputs_def)
  have a2: "read_id_list sample_inputs ''ids.txt'' = Inr ([] @ ''IDS_X'' # [])"
    by (simp add: sample_inputs_def)
  have a3: "read_jinja2_template sample_inputs ''t.jinja2'' = Inr (\<lambda>ids. ids ''IDS_X'')"
    by (simp add: sample_inputs_def)
  have a4: "ReadDataPack sample_inputs (path_join ''from'' (''en-US'' @ ''.pak''))
              = Inr [1 \<mapsto> ''hello'']"
    by (simp add: sample_inputs_def)
  have a5: "[''IDS_X'' \<mapsto> 1::int] ''IDS_X'' = Some 1" by simp
  have a6: "[1::int \<mapsto> ''hello''] 1 = Some ''hello''" by simp
  have a7: "''hello'' \<noteq> []" by simp
  have a8: "utf8_decode ''hello'' = Inr (ustr ''hello'')" by code_simp
  have a9: "''to/en_US.lproj/Localizable.strings''
              = path_join (format_lproj_dir ''to'' ''en-US'') LOCALIZABLE_STRINGS"
    by code_simp
  have a10: "map (localizable_entry [''IDS_X'' \<mapsto> 1] [1 \<mapsto> ''hello''] ''h.h''
                    ''to/en_US.lproj/Localizable.strings'') [] = map Inr []"
    by simp
  have a11: "snd (generate_locales sample_inputs [''IDS_X'' \<mapsto> 1] ([] @ ''IDS_X'' # [])
            (\<lambda>ids. ids ''IDS_X'') ''from'' ''to'' ''h.h'' (Map.empty, []) [''de''])
       = Inr ()"
    by code_simp
  have n: "format_lproj_dir ''to'' ''fr'' \<noteq> format_lproj_dir ''to'' ''en-US''"
    by code_simp
  then have a12: "\<forall>l\<in>set [''fr'']. format_lproj_dir ''to'' l \<noteq> format_lproj_dir ''to'' ''en-US''"
    by simp
  have h: "''hello'' = ''hello''" by simp
  note t1 = generate_writes_line [OF a1 a2 a3 a4 a5 a6 a7 a8 a9 a10 a11 a12]
  note c1 = t1 [THEN conjunct2, THEN mp, OF h]
  have c2: \<open>fst (fst (generate sample_inputs (Map.empty, []) ''from'' ''to'' ''ids.txt'' ''t.jinja2''
                  ''h.h'' ([''de''] @ ''en-US'' # [''fr''])))
         ''to/en_US.lproj/Localizable.strings''
       = Some (ustr ''"IDS_X" = "hello";\<newline>'')\<close>
    by code_simp
  have b1: "read_resources_header ?env ''h.h'' = Inr [''IDS_X'' \<mapsto> 1]"
    by (simp add: sample_inputs_def)
  have b2: "read_id_list ?env ''ids2.txt'' = Inr ([] @ ''IDS_X'' # [''IDS_GONE''])"
    by (simp add: sample_inputs_def)
  have b3: "read_jinja2_template ?env ''t.jinja2'' = Inr (\<lambda>ids. ids ''IDS_X'')"
    by (simp add: sample_inputs_def)
  have b4: "ReadDataPack ?env (path_join ''from'' (''en'' @ ''.pak'')) = Inr [1 \<mapsto> ?esc]"
    by simp
  have b6: "[1::int \<mapsto> ?esc] 1 = Some ?esc" by simp
  have b7: "?esc \<noteq> []" by simp
  have b8: "utf8_decode ?esc = Inr [97, 92, 34, 233]" by code_simp
  have b9: "''to/en.lproj/Localizable.strings''
              = path_join (format_lproj_dir ''to'' ''en'') LOCALIZABLE_STRINGS"
    by code_simp
  have b10: "map (localizable_entry [''IDS_X'' \<mapsto> 1] [1 \<mapsto> ?esc] ''h.h''
                    ''to/en.lproj/Localizable.strings'') [] = map Inr []"
    by simp
  have b11: "snd (generate_locales ?env [''IDS_X'' \<mapsto> 1] ([] @ ''IDS_X'' # [''IDS_GONE''])
            (\<lambda>ids. ids ''IDS_X'') ''from'' ''to'' ''h.h'' (Map.empty, []) []) = Inr ()"
    by simp
  have b12: "\<forall>l\<in>set []. format_lproj_dir ''to'' l \<noteq> format_lproj_dir ''to'' ''en''"
    by simp
  note t2 = generate_writes_line [OF b1 b2 b3 b4 a5 b6 b7 b8 b9 b10 b11 b12]
  note d1 = t2 [THEN conjunct1]
  have d0: "replace (replace [97, 92, 34, 233] [92] [92, 92]) [34] [92, 34]
       = [97, 92, 92, 92, 34, 233::nat]"
    by code_simp
  have d2: \<open>snd (generate ?env (Map.empty, []) ''from'' ''to'' ''ids2.txt'' ''t.jinja2'' ''h.h''
                 ([] @ ''en'' # []))
       = Inl (LocalizeException ''Could not find "IDS_GONE" in h.h'')\<close>
    by code_simp
  show ?thesis by (intro conjI) (rule a2 a8 a9 a11 n c1 c2 b8 d0 d1 d2)+
qed


text \<open>
  Claim C5, as the specification words it, fails when an ID before \<open>IDS_X\<close> is missing:
  with the list \<open>IDS_GONE\<close>, \<open>IDS_X\<close>, the header and the data pack of the claim, the
  loop raises \<open>LocalizeException\<close> at \<open>IDS_GONE\<close> and the file is left empty.
\<close>

theorem generate_line_missing_counterexample:
  \<open>''IDS_X'' \<in> set [''IDS_GONE'', ''IDS_X'']
   \<and> snd (generate (sample_inputs\<lparr>read_id_list := (\<lambda>path. Inr [''IDS_GONE'', ''IDS_X''])\<rparr>)
            (Map.empty, []) ''from'' ''to'' ''ids.txt'' ''t.jinja2'' ''h.h'' [''en''])
       = Inl (LocalizeException ''Could not find "IDS_GONE" in h.h'')
   \<and> fst (fst (generate (sample_inputs\<lparr>read_id_list := (\<lambda>path. Inr [''IDS_GONE'', ''IDS_X''])\<rparr>)
                  (Map.empty, []) ''from'' ''to'' ''ids.txt'' ''t.jinja2'' ''h.h'' [''en'']))
         ''to/en.lproj/Localizable.strings''
       = Some []\<close>
  by code_simp

text \<open>
  Claim C3, as the code has it. When the list of IDs holds an ID that the header does
  not have, or whose value the data pack of the locale does not have, and every ID
  before it yields its line, \<open>generate\<close> raises \<open>LocalizeException\<close>. By then the file
  \<open>Localizable.strings\<close> of that locale has been opened for writing, and it is left
  with the lines of the IDs before the failing one. \<open>DoMain\<close> catches the exception,
  writes the message to the error stream and leaves with status 1; no later locale is
  processed.
\<close>

theorem generate_missing_id:
  assumes "read_resources_header env hdr = Inr id_map"
    and "read_id_list env lst = Inr (pre @ bad # post)"
    and "read_jinja2_template env tp = Inr tmpl"
    and "ReadDataPack env (path_join fdir (locale @ ''.pak'')) = Inr resources"
    and "lpath = path_join (format_lproj_dir tdir locale) LOCALIZABLE_STRINGS"
    and "map (localizable_entry id_map resources hdr lpath) pre = map Inr lines"
    and "id_map bad = None \<or> (\<exists>v. id_map bad = Some v \<and> v \<noteq> 0 \<and> resources v = None)"
    and "\<not> print_input opts" and "\<not> print_output opts"
    and "from_dir opts = Some fdir" and "fdir \<noteq> []"
    and "to_dir opts = Some tdir" and "tdir \<noteq> []"
    and "localizable_list opts = Some lst" and "lst \<noteq> []"
    and "infoplist_template opts = Some tp" and "tp \<noteq> []"
    and "resources_header opts = Some hdr" and "hdr \<noteq> []"
  shows "\<exists>msg.
           generate env (fs, err) fdir tdir lst tp hdr (locale # rest)
             = ((fs(lpath \<mapsto> concat lines), err @ [''Error while creating '' @ lpath @ ''\<newline>'']),
                Inl (LocalizeException msg))
           \<and> DoMain env (fs, err) opts (locale # rest)
             = ((fs(lpath \<mapsto> concat lines),
                 err @ [''Error while creating '' @ lpath @ ''\<newline>'',
                        ''Error: '' @ msg @ ''\<newline>'']),
                SysExit 1)"
proof -
  have "\<exists>msg. localizable_entry id_map resources hdr lpath bad = Inl (LocalizeException msg)"
    using assms(7) by (rule entry_missing)
  then obtain msg
    where e: "localizable_entry id_map resources hdr lpath bad = Inl (LocalizeException msg)"
    by blast
  have w: "write_localizable id_map resources hdr
             (path_join (format_lproj_dir tdir locale) LOCALIZABLE_STRINGS) [] (pre @ bad # post)
           = (concat lines, Inl (LocalizeException msg))"
    using write_localizable_failure [OF assms(6) e] assms(5) by simp
  have l: "generate_locale env id_map (pre @ bad # post) tmpl fdir tdir hdr (fs, err) locale
         = ((fs(lpath \<mapsto> concat lines), err @ [''Error while creating '' @ lpath @ ''\<newline>'']),
            Inl (LocalizeException msg))"
    using generate_locale_failure [OF assms(4) w] assms(5) by simp
  have g: "generate env (fs, err) fdir tdir lst tp hdr (locale # rest)
             = ((fs(lpath \<mapsto> concat lines), err @ [''Error while creating '' @ lpath @ ''\<newline>'']),
                Inl (LocalizeException msg))"
    by (simp add: generate_def assms(1-3) l)
  have n: "locale # rest \<noteq> []" by simp
  have d: "DoMain env (fs, err) opts (locale # rest)
             = ((fs(lpath \<mapsto> concat lines),
                 err @ [''Error while creating '' @ lpath @ ''\<newline>'',
                        ''Error: '' @ msg @ ''\<newline>'']),
                SysExit 1)"
    unfolding DoMain_def
    by (simp only: n assms(8-19) given_def falsy_str_def option.case option.sel g
          if_False simp_thms prod.case sum.case error.case fst_conv snd_conv append.simps
          append_assoc)
  show ?thesis using g d by blast
qed


theorem generate_missing_id_witness:
  \<open>read_id_list sample_inputs ''ids2.txt'' = Inr ([''IDS_X''] @ ''IDS_GONE'' # [])
   \<and> ''to/en.lproj/Localizable.strings''
       = path_join (format_lproj_dir ''to'' ''en'') LOCALIZABLE_STRINGS
   \<and> map (localizable_entry [''IDS_X'' \<mapsto> 1] [1 \<mapsto> ''hello''] ''h.h''
              ''to/en.lproj/Localizable.strings'') [''IDS_X'']
       = map Inr [ustr ''"IDS_X" = "hello";\<newline>'']
   \<and> [''IDS_X'' \<mapsto> 1::int] ''IDS_GONE'' = None
   \<and> (\<exists>msg.
         generate sample_inputs (Map.empty, []) ''from'' ''to'' ''ids2.txt'' ''t.jinja2'' ''h.h''
           (''en'' # [''fr''])
           = ((Map.empty(''to/en.lproj/Localizable.strings''
                           \<mapsto> concat [ustr ''"IDS_X" = "hello";\<newline>'']),
               [] @ [''Error while creating '' @ ''to/en.lproj/Localizable.strings'' @ ''\<newline>'']),
              Inl (LocalizeException msg))
         \<and> DoMain sample_inputs (Map.empty, []) sample_options (''en'' # [''fr''])
           = ((Map.empty(''to/en.lproj/Localizable.strings''
                           \<mapsto> concat [ustr ''"IDS_X" = "hello";\<newline>'']),
               [] @ [''Error while creating '' @ ''to/en.lproj/Localizable.strings'' @ ''\<newline>'',
                     ''Error: '' @ msg @ ''\<newline>'']),
              SysExit 1))\<close>
proof -
  have a1: "read_resources_header sample_inputs ''h.h'' = Inr [''IDS_X'' \<mapsto> 1]"
    by (simp add: sample_inputs_def)
  have a2: "read_id_list sample_inputs ''ids2.txt'' = Inr ([''IDS_X''] @ ''IDS_GONE'' # [])"
    by (simp add: sample_inputs_def)
  have a3: "read_jinja2_template sample_inputs ''t.jinja2'' = Inr (\<lambda>ids. ids ''IDS_X'')"
    by (simp add: sample_inputs_def)
  have a4: "ReadDataPack sample_inputs (path_join ''from'' (''en'' @ ''.pak''))
              = Inr [1 \<mapsto> ''hello'']"
    by (simp add: sample_inputs_def)
  have a5: "''to/en.lproj/Localizable.strings''
              = path_join (format_lproj_dir ''to'' ''en'') LOCALIZABLE_STRINGS"
    by code_simp
  have a6: \<open>map (localizable_entry [''IDS_X'' \<mapsto> 1] [1 \<mapsto> ''hello''] ''h.h''
              ''to/en.lproj/Localizable.strings'') [''IDS_X'']
       = map Inr [ustr ''"IDS_X" = "hello";\<newline>'']\<close>
    by code_simp
  have n: "[''IDS_X'' \<mapsto> 1::int] ''IDS_GONE'' = None" by simp
  then have a7: "[''IDS_X'' \<mapsto> 1::int] ''IDS_GONE'' = None
      \<or> (\<exists>v. [''IDS_X'' \<mapsto> 1::int] ''IDS_GONE'' = Some v \<and> v \<noteq> 0
              \<and> [1 \<mapsto> ''hello''] v = None)"
    by (rule disjI1)
  have o: "\<not> print_input sample_options" "\<not> print_output sample_options"
    "from_dir sample_options = Some ''from''" "''from'' \<noteq> []"
    "to_dir sample_options = Some ''to''" "''to'' \<noteq> []"
    "localizable_list sample_options = Some ''ids2.txt''" "''ids2.txt'' \<noteq> []"
    "infoplist_template sample_options = Some ''t.jinja2''" "''t.jinja2'' \<noteq> []"
    "resources_header sample_options = Some ''h.h''" "''h.h'' \<noteq> []"
    by (simp_all add: sample_options_def)
  have c: \<open>\<exists>msg.
         generate sample_inputs (Map.empty, []) ''from'' ''to'' ''ids2.txt'' ''t.jinja2'' ''h.h''
           (''en'' # [''fr''])
           = ((Map.empty(''to/en.lproj/Localizable.strings''
                           \<mapsto> concat [ustr ''"IDS_X" = "hello";\<newline>'']),
               [] @ [''Error while creating '' @ ''to/en.lproj/Localizable.strings'' @ ''\<newline>'']),
              Inl (LocalizeException msg))
         \<and> DoMain sample_inputs (Map.empty, []) sample_options (''en'' # [''fr''])
           = ((Map.empty(''to/en.lproj/Localizable.strings''
                           \<mapsto> concat [ustr ''"IDS_X" = "hello";\<newline>'']),
               [] @ [''Error while creating '' @ ''to/en.lproj/Localizable.strings'' @ ''\<newline>'',
                     ''Error: '' @ msg @ ''\<newline>'']),
              SysExit 1)\<close>
    using a1 a2 a3 a4 a5 a6 a7 o by (rule generate_missing_id)
  show ?thesis by (intro conjI) (rule a2 a5 a6 n c)+
qed

text \<open>
  Claim C3, as the specification words it, fails in "no partial output": the file is
  opened before the IDs are looked up and each line is written as soon as it is found.
  With the IDs \<open>IDS_X\<close> and \<open>IDS_GONE\<close>, of which the header has the first only, the
  exception is raised and the file holds the line of \<open>IDS_X\<close>.
\<close>

theorem generate_partial_output_counterexample:
  \<open>snd (generate sample_inputs (Map.empty, []) ''from'' ''to'' ''ids2.txt'' ''t.jinja2'' ''h.h''
          [''en''])
     = Inl (LocalizeException ''Could not find "IDS_GONE" in h.h'')
   \<and> fst (fst (generate sample_inputs (Map.empty, []) ''from'' ''to'' ''ids2.txt'' ''t.jinja2''
                  ''h.h'' [''en''])) ''to/en.lproj/Localizable.strings''
     = Some (ustr ''"IDS_X" = "hello";\<newline>'')
   \<and> snd (DoMain sample_inputs (Map.empty, []) sample_options [''en'']) = SysExit 1\<close>
  by code_simp

text \<open>
  Claim C10. A lookup that gives a false value counts as missing. The tool does the same
  with a header that maps an ID to 0 as with one that lacks the ID, and the same with a
  data pack that maps a value to the empty string as with one that lacks the value, in
  the loop over the list of IDs and in the attribute lookup of the template. The
  exception is the \<open>LocalizeException\<close> of the missing ID or string. A line or an
  attribute value is produced only for an ID whose value is not 0 and whose string is not
  empty.
\<close>

theorem falsy_lookup_is_missing:
  "generate_locales env (id_map(name \<mapsto> 0)) ids tmpl fdir tdir hdr st locales
     = generate_locales env (id_map(name := None)) ids tmpl fdir tdir hdr st locales
   \<and> write_localizable id_map (resources(v \<mapsto> [])) hdr p w ids
     = write_localizable id_map (resources(v := None)) hdr p w ids
   \<and> adapter_getattr (id_map(name \<mapsto> 0)) resources name
     = adapter_getattr (id_map(name := None)) resources name
   \<and> adapter_getattr id_map (resources(v \<mapsto> [])) name
     = adapter_getattr id_map (resources(v := None)) name
   \<and> localizable_entry (id_map(name \<mapsto> 0)) resources hdr p name
     = Inl (LocalizeException (''Could not find '' @ [CHR 0x22] @ name @ [CHR 0x22] @ '' in '' @ hdr))
   \<and> (id_map name = Some v \<and> v \<noteq> 0 \<longrightarrow>
        localizable_entry id_map (resources(v \<mapsto> [])) hdr p name
          = Inl (LocalizeException (''Could not find localized string in '' @ p @ '' for ''
                                    @ name @ '' ('' @ str_int v @ '')'')))
   \<and> (\<forall>line. localizable_entry id_map resources hdr p name = Inr line \<longrightarrow>
        (\<exists>i d. id_map name = Some i \<and> i \<noteq> 0 \<and> resources i = Some d \<and> d \<noteq> []))
   \<and> (\<forall>u. adapter_getattr id_map resources name = Inr u \<longrightarrow>
        (\<exists>i d. id_map name = Some i \<and> i \<noteq> 0 \<and> resources i = Some d \<and> d \<noteq> []))"
proof (intro conjI allI impI)
  show "generate_locales env (id_map(name \<mapsto> 0)) ids tmpl fdir tdir hdr st locales
     = generate_locales env (id_map(name := None)) ids tmpl fdir tdir hdr st locales"
    by (rule generate_locales_zero_id)
  show "write_localizable id_map (resources(v \<mapsto> [])) hdr p w ids
     = write_localizable id_map (resources(v := None)) hdr p w ids"
    by (rule write_localizable_cong [OF entry_empty_string])
  show "adapter_getattr (id_map(name \<mapsto> 0)) resources name
     = adapter_getattr (id_map(name := None)) resources name"
    by (simp only: getattr_zero_id)
  show "adapter_getattr id_map (resources(v \<mapsto> [])) name
     = adapter_getattr id_map (resources(v := None)) name"
    by (simp only: getattr_empty_string)
  show "localizable_entry (id_map(name \<mapsto> 0)) resources hdr p name
     = Inl (LocalizeException (''Could not find '' @ [CHR 0x22] @ name @ [CHR 0x22] @ '' in '' @ hdr))"
    by (simp add: localizable_entry_def falsy_int_def)
  show "localizable_entry id_map (resources(v \<mapsto> [])) hdr p name
          = Inl (LocalizeException (''Could not find localized string in '' @ p @ '' for ''
                                    @ name @ '' ('' @ str_int v @ '')''))"
    if "id_map name = Some v \<and> v \<noteq> 0"
    using that by (simp add: localizable_entry_def falsy_int_def falsy_str_def)
  show "\<exists>i d. id_map name = Some i \<and> i \<noteq> 0 \<and> resources i = Some d \<and> d \<noteq> []"
    if "localizable_entry id_map resources hdr p name = Inr line" for line
    using that by (rule entry_emitted)
  show "\<exists>i d. id_map name = Some i \<and> i \<noteq> 0 \<and> resources i = Some d \<and> d \<noteq> []"
    if "adapter_getattr id_map resources name = Inr u" for u
    using that by (rule getattr_emitted)
qed


theorem falsy_lookup_is_missing_witness:
  \<open>[''IDS_A'' \<mapsto> 5] ''IDS_A'' = Some (5::int) \<and> (5::int) \<noteq> 0
   \<and> localizable_entry [''IDS_A'' \<mapsto> 5] ([5 \<mapsto> ''x''](5 \<mapsto> [])) ''h.h'' ''p'' ''IDS_A''
       = Inl (LocalizeException ''Could not find localized string in p for IDS_A (5)'')
   \<and> localizable_entry ([''IDS_A'' \<mapsto> 5](''IDS_A'' \<mapsto> 0)) [5 \<mapsto> ''x''] ''h.h'' ''p'' ''IDS_A''
       = Inl (LocalizeException ''Could not find "IDS_A" in h.h'')
   \<and> localizable_entry [''IDS_A'' \<mapsto> 5] [5 \<mapsto> ''x''] ''h.h'' ''p'' ''IDS_A''
       = Inr (ustr ''"IDS_A" = "x";\<newline>'')
   \<and> adapter_getattr [''IDS_A'' \<mapsto> 5] [5 \<mapsto> ''x''] ''IDS_A'' = Inr (ustr ''x'')
   \<and> (\<exists>i d. [''IDS_A'' \<mapsto> 5::int] ''IDS_A'' = Some i \<and> i \<noteq> 0
            \<and> [5 \<mapsto> ''x''] i = Some d \<and> d \<noteq> [])\<close>
proof -
  note t = falsy_lookup_is_missing [where id_map = "[''IDS_A'' \<mapsto> 5]" and name = "''IDS_A''"
      and resources = "[5 \<mapsto> ''x'']" and v = 5 and hdr = "''h.h''" and p = "''p''"]
  note t5 = t [THEN conjunct2, THEN conjunct2, THEN conjunct2, THEN conjunct2]
  note t6 = t5 [THEN conjunct2]
  note t7 = t6 [THEN conjunct2, THEN conjunct1]
  have h1: "[''IDS_A'' \<mapsto> 5] ''IDS_A'' = Some (5::int)" by simp
  have h2: "(5::int) \<noteq> 0" by simp
  have s: "str_int 5 = ''5''" by code_simp
  from t6 [THEN conjunct1] h1 h2 have
    "localizable_entry [''IDS_A'' \<mapsto> 5] ([5 \<mapsto> ''x''](5 \<mapsto> [])) ''h.h'' ''p'' ''IDS_A''
       = Inl (LocalizeException (''Could not find localized string in '' @ ''p'' @ '' for ''
                                    @ ''IDS_A'' @ '' ('' @ str_int 5 @ '')''))"
    by blast
  then have c1: "localizable_entry [''IDS_A'' \<mapsto> 5] ([5 \<mapsto> ''x''](5 \<mapsto> [])) ''h.h'' ''p'' ''IDS_A''
       = Inl (LocalizeException ''Could not find localized string in p for IDS_A (5)'')"
    by (simp add: s)
  from t5 [THEN conjunct1] have
    "localizable_entry ([''IDS_A'' \<mapsto> 5](''IDS_A'' \<mapsto> 0)) [5 \<mapsto> ''x''] ''h.h'' ''p'' ''IDS_A''
       = Inl (LocalizeException (''Could not find '' @ [CHR 0x22] @ ''IDS_A'' @ [CHR 0x22]
                                 @ '' in '' @ ''h.h''))"
    by blast
  then have c2: \<open>localizable_entry ([''IDS_A'' \<mapsto> 5](''IDS_A'' \<mapsto> 0)) [5 \<mapsto> ''x''] ''h.h'' ''p'' ''IDS_A''
       = Inl (LocalizeException ''Could not find "IDS_A" in h.h'')\<close>
    by simp
  have c3: \<open>localizable_entry [''IDS_A'' \<mapsto> 5] [5 \<mapsto> ''x''] ''h.h'' ''p'' ''IDS_A''
       = Inr (ustr ''"IDS_A" = "x";\<newline>'')\<close>
    by code_simp
  have c4: "adapter_getattr [''IDS_A'' \<mapsto> 5] [5 \<mapsto> ''x''] ''IDS_A'' = Inr (ustr ''x'')"
    by code_simp
  from t7 c3 have c5: "\<exists>i d. [''IDS_A'' \<mapsto> 5::int] ''IDS_A'' = Some i \<and> i \<noteq> 0
            \<and> [5 \<mapsto> ''x''] i = Some d \<and> d \<noteq> []"
    by blast
  show ?thesis by (intro conjI) (rule h1 h2 c1 c2 c3 c4 c5)+
qed


section \<open>Properties of the integrity header generator\<close>

lemma paths_and_integrity_cong:
  assumes "\<forall>p\<in>set input_paths. fs1 p = fs2 p"
  shows "paths_and_integrity fs1 input_paths = paths_and_integrity fs2 input_paths"
  using assms
proof (induction input_paths)
  case Nil
  show ?case by simp
next
  case (Cons p ps)
  have c: "ComputeIntegrity fs1 p = ComputeIntegrity fs2 p"
    using Cons.prems by (simp add: ComputeIntegrity_def)
  have r: "paths_and_integrity fs1 ps = paths_and_integrity fs2 ps"
    using Cons by simp
  show ?case by (simp only: paths_and_integrity.simps c r)
qed

text \<open>
  Claim C8. \<open>ComputeIntegrity\<close> depends on the content of the file only: two files
  with the same bytes, under whatever paths and among whatever other files, get the same
  value, the Base64 text of the SHA-256 digest of the content. So two runs of \<open>main\<close>
  on file stores that agree on the input files end alike, and when they succeed they
  write the same header.
\<close>

theorem ComputeIntegrity_deterministic:
  "(fs1 p1 = Some content \<and> fs2 p2 = Some content \<longrightarrow>
      ComputeIntegrity fs1 p1 = Inr (b64encode (sha256 content))
      \<and> ComputeIntegrity fs2 p2 = ComputeIntegrity fs1 p1)
   \<and> ((\<forall>p\<in>set input_paths. fs1 p = fs2 p) \<longrightarrow>
        snd (main fs1 input_paths (Some out)) = snd (main fs2 input_paths (Some out))
        \<and> (snd (main fs1 input_paths (Some out)) = Inr 0 \<longrightarrow>
             fst (main fs1 input_paths (Some out)) out
               = fst (main fs2 input_paths (Some out)) out))"
proof (intro conjI impI)
  assume "fs1 p1 = Some content \<and> fs2 p2 = Some content"
  then show "ComputeIntegrity fs1 p1 = Inr (b64encode (sha256 content))"
    and "ComputeIntegrity fs2 p2 = ComputeIntegrity fs1 p1"
    by (simp_all add: ComputeIntegrity_def)
next
  assume a: "\<forall>p\<in>set input_paths. fs1 p = fs2 p"
  note e = paths_and_integrity_cong [OF a]
  show "snd (main fs1 input_paths (Some out)) = snd (main fs2 input_paths (Some out))"
    by (simp add: main_def e split: sum.split)
  show "fst (main fs1 input_paths (Some out)) out = fst (main fs2 input_paths (Some out)) out"
    if "snd (main fs1 input_paths (Some out)) = Inr 0"
    using that by (simp add: main_def e WriteHeader_def split: sum.splits)
qed

theorem ComputeIntegrity_deterministic_witness:
  "[''a.js'' \<mapsto> ''abc''] ''a.js'' = Some ''abc''
   \<and> [''lib/b.js'' \<mapsto> ''abc'', ''c.js'' \<mapsto> ''xyz''] ''lib/b.js'' = Some ''abc''
   \<and> ComputeIntegrity [''a.js'' \<mapsto> ''abc''] ''a.js''
       = Inr ''ungWv48Bz+pBQUDeXa4iI7ADYaOWF3qctBD/YfIAFa0=''
   \<and> ComputeIntegrity [''lib/b.js'' \<mapsto> ''abc'', ''c.js'' \<mapsto> ''xyz''] ''lib/b.js''
       = ComputeIntegrity [''a.js'' \<mapsto> ''abc''] ''a.js''
   \<and> snd (main [''a.js'' \<mapsto> ''abc''] [''a.js''] (Some ''out.h''))
       = snd (main [''a.js'' \<mapsto> ''abc'', ''out.h'' \<mapsto> ''old''] [''a.js''] (Some ''out.h''))
   \<and> snd (main [''a.js'' \<mapsto> ''abc''] [''a.js''] (Some ''out.h'')) = Inr 0
   \<and> fst (main [''a.js'' \<mapsto> ''abc''] [''a.js''] (Some ''out.h'')) ''out.h''
       = fst (main [''a.js'' \<mapsto> ''abc'', ''out.h'' \<mapsto> ''old''] [''a.js''] (Some ''out.h''))
           ''out.h''"
proof -
  have h1: "[''a.js'' \<mapsto> ''abc''] ''a.js'' = Some ''abc''" by simp
  have h2: "[''lib/b.js'' \<mapsto> ''abc'', ''c.js'' \<mapsto> ''xyz''] ''lib/b.js'' = Some ''abc''"
    by simp
  have h3: "\<forall>p\<in>set [''a.js'']. [''a.js'' \<mapsto> ''abc''] p
              = [''a.js'' \<mapsto> ''abc'', ''out.h'' \<mapsto> ''old''] p"
    by simp
  have v: "b64encode (sha256 ''abc'') = ''ungWv48Bz+pBQUDeXa4iI7ADYaOWF3qctBD/YfIAFa0=''"
    by code_simp
  note t = ComputeIntegrity_deterministic [where ?fs1.0 = "[''a.js'' \<mapsto> ''abc'']"
      and ?p1.0 = "''a.js''" and content = "''abc''" and out = "''out.h''"
      and input_paths = "[''a.js'']"]
  note ta = t [where ?fs2.0 = "[''lib/b.js'' \<mapsto> ''abc'', ''c.js'' \<mapsto> ''xyz'']"
      and ?p2.0 = "''lib/b.js''", THEN conjunct1, THEN mp, OF conjI [OF h1 h2]]
  note tb = t [where ?fs2.0 = "[''a.js'' \<mapsto> ''abc'', ''out.h'' \<mapsto> ''old'']",
      THEN conjunct2, THEN mp, OF h3]
  have c1: "ComputeIntegrity [''a.js'' \<mapsto> ''abc''] ''a.js''
       = Inr ''ungWv48Bz+pBQUDeXa4iI7ADYaOWF3qctBD/YfIAFa0=''"
    using ta [THEN conjunct1] by (simp only: v)
  note c2 = ta [THEN conjunct2]
  note c3 = tb [THEN conjunct1]
  have c4: "snd (main [''a.js'' \<mapsto> ''abc''] [''a.js''] (Some ''out.h'')) = Inr 0"
    by (simp add: main_def ComputeIntegrity_def)
  note c5 = tb [THEN conjunct2, THEN mp, OF c4]
  show ?thesis by (intro conjI) (rule h1 h2 c1 c2 c3 c4 c5)+
qed

end
